theory Spec2Isabelle
  imports Main "HOL-Library.Sublist" "HOL-Library.Multiset"
begin

section \<open>JavaScript values\<close>

text \<open>
  A value of type \<open>string | null | undefined\<close> is a \<open>string option\<close>. JavaScript
  treats \<open>null\<close>, \<open>undefined\<close> and the empty string as false in a condition.
\<close>

definition truthy :: "string option \<Rightarrow> bool" where
  "truthy v = (case v of None \<Rightarrow> False | Some s \<Rightarrow> s \<noteq> [])"

text \<open>\<open>a || d\<close> on strings.\<close>

definition or_else :: "string option \<Rightarrow> string \<Rightarrow> string" where
  "or_else v d = (case v of None \<Rightarrow> d | Some s \<Rightarrow> if s = [] then d else s)"

text \<open>\<open>s.startsWith(p)\<close> is \<^const>\<open>prefix\<close>; \<open>s.includes(p)\<close> is:\<close>

fun str_includes :: "string \<Rightarrow> string \<Rightarrow> bool" where
  "str_includes [] p = (p = [])"
| "str_includes (c # cs) p = (prefix p (c # cs) \<or> str_includes cs p)"

section \<open>The durable store (server)\<close>

text \<open>A citation pair \<open>{title, uri}\<close>.\<close>

record citation =
  title :: string
  uri :: string

text \<open>
  A row of table \<open>history\<close>. Column \<open>sources\<close> holds \<open>JSON.stringify(sources)\<close>, read
  back with \<open>JSON.parse\<close>; the text is kept here as the list it encodes.
  \<open>timestamp\<close> is \<open>CURRENT_TIMESTAMP\<close> at insertion, in whole seconds.
\<close>

record row =
  row_id :: nat
  row_type :: string
  row_data :: string
  row_prompt :: string
  row_text :: "string option"
  row_sources :: "citation list option"
  row_timestamp :: nat

text \<open>
  The table in rowid order, and the AUTOINCREMENT counter (the largest rowid that
  was ever used).
\<close>

record database =
  rows :: "row list"
  seq :: nat

text \<open>The JSON body of \<open>POST /api/history\<close>; a missing or \<open>null\<close> field is \<open>None\<close>.\<close>

record post_body =
  body_type :: "string option"
  body_data :: "string option"
  body_prompt :: "string option"
  body_text :: "string option"
  body_sources :: "citation list option"

record saved_item =
  item_id :: nat
  item_type :: string
  item_data :: string
  item_prompt :: string
  item_text :: "string option"
  item_sources :: "citation list option"

datatype json_body =
    ErrorBody string
  | RowsBody "row list"
  | ItemBody saved_item
  | SuccessBody bool

record response =
  status :: nat
  body :: json_body

text \<open>\<open>response.ok\<close>\<close>

definition ok :: "response \<Rightarrow> bool" where
  "ok r = (200 \<le> status r \<and> status r < 300)"

text \<open>
  \<open>SELECT * FROM history ORDER BY timestamp DESC\<close>: the answer holds the rows of the
  table, those with a later timestamp first. The query gives no order to rows of equal
  timestamp.
\<close>

definition orders_by_timestamp_desc :: "row list \<Rightarrow> row list \<Rightarrow> bool" where
  "orders_by_timestamp_desc tbl out =
     (mset out = mset tbl \<and> sorted_wrt (\<lambda>a b. row_timestamp b \<le> row_timestamp a) out)"

text \<open>
  \<open>app.get("/api/history")\<close>: which responses the handler may give. \<open>db_up\<close> is false
  when the database statement throws.
\<close>

definition get_history :: "bool \<Rightarrow> database \<Rightarrow> response \<Rightarrow> bool" where
  "get_history db_up db resp =
     (if db_up
      then (case body resp of
              RowsBody out \<Rightarrow> status resp = 200 \<and> orders_by_timestamp_desc (rows db) out
            | _ \<Rightarrow> False)
      else resp = \<lparr>status = 500, body = ErrorBody ''Failed to fetch history''\<rparr>)"

text \<open>\<open>app.post("/api/history")\<close>; \<open>now\<close> is the clock of the database.\<close>

definition post_history :: "nat \<Rightarrow> bool \<Rightarrow> post_body \<Rightarrow> database \<Rightarrow> response \<times> database" where
  "post_history now db_up b db =
     (if \<not> truthy (body_type b) \<or> \<not> truthy (body_data b) \<or> \<not> truthy (body_prompt b)
      then (\<lparr>status = 400, body = ErrorBody ''Missing required fields''\<rparr>, db)
      else if \<not> db_up
      then (\<lparr>status = 500, body = ErrorBody ''Failed to save history''\<rparr>, db)
      else
        let i = Suc (seq db);
            r = \<lparr>row_id = i, row_type = the (body_type b), row_data = the (body_data b),
                 row_prompt = the (body_prompt b), row_text = body_text b,
                 row_sources = body_sources b, row_timestamp = now\<rparr>
        in (\<lparr>status = 200,
             body = ItemBody \<lparr>item_id = i, item_type = the (body_type b),
                      item_data = the (body_data b), item_prompt = the (body_prompt b),
                      item_text = body_text b, item_sources = body_sources b\<rparr>\<rparr>,
            db\<lparr>rows := rows db @ [r], seq := i\<rparr>))"

text \<open>\<open>app.delete("/api/history/:id")\<close>\<close>

definition delete_history :: "bool \<Rightarrow> nat \<Rightarrow> database \<Rightarrow> response \<times> database" where
  "delete_history db_up i db =
     (if db_up
      then (\<lparr>status = 200, body = SuccessBody True\<rparr>,
            db\<lparr>rows := filter (\<lambda>r. row_id r \<noteq> i) (rows db)\<rparr>)
      else (\<lparr>status = 500, body = ErrorBody ''Failed to delete item''\<rparr>, db))"

section \<open>The client: state and history synchronisation\<close>

datatype mode = ImageEdit | VideoGen | Analyze | Speech | Transcribe | GenerateImage
  | Research | Summarize

fun mode_name :: "mode \<Rightarrow> string" where
  "mode_name ImageEdit = ''image-edit''"
| "mode_name VideoGen = ''video-gen''"
| "mode_name Analyze = ''analyze''"
| "mode_name Speech = ''speech''"
| "mode_name Transcribe = ''transcribe''"
| "mode_name GenerateImage = ''generate-image''"
| "mode_name Research = ''research''"
| "mode_name Summarize = ''summarize''"

datatype aspect_ratio = Landscape | Portrait

fun aspect_name :: "aspect_ratio \<Rightarrow> string" where
  "aspect_name Landscape = ''16:9''"
| "aspect_name Portrait = ''9:16''"

record media =
  media_data :: string
  media_mimeType :: string

text \<open>\<open>GenerationResult\<close>\<close>

record generation_result =
  gr_id :: "nat option"
  gr_type :: string
  url :: string
  gr_prompt :: string
  gr_text :: "string option"
  sources :: "citation list option"

text \<open>The \<open>useState\<close> cells of \<open>App\<close> that the handlers read and write.\<close>

record app_state =
  mode :: mode
  prompt :: string
  uploadedImage :: "media option"
  isGenerating :: bool
  results :: "generation_result list"
  error :: "string option"
  hasKey :: bool
  aspectRatio :: aspect_ratio
  recordedAudio :: "media option"

text \<open>
  Everything a handler does outside the state: calls to the provider (with the API key
  the client was built with), to the store and to the browser, in the order they are made.
\<close>

record video_config =
  vc_model :: string
  vc_prompt :: string
  vc_numberOfVideos :: nat
  vc_resolution :: string
  vc_aspectRatio :: string
  vc_image :: "media option"

datatype content_part = InlineData string string | TextPart string

datatype gc_config = NoConfig | ImageConfig string | GoogleSearch | UrlContext
  | SpeechVoice string

record gc_request =
  gc_model :: string
  gc_contents :: "content_part list"
  gc_config :: gc_config

text \<open>
  \<open>OperationHandle\<close>: \<open>op_uri\<close> is \<open>operation.response?.generatedVideos?.[0]?.video?.uri\<close>.
\<close>

record operation =
  op_name :: string
  op_done :: bool
  op_uri :: "string option"

datatype call =
    GenerateContent string gc_request
  | GenerateVideos string video_config
  | GetVideosOperation string operation
  | Sleep nat
  | Download string "(string \<times> string) list"
  | FetchBlob string
  | StoreGet
  | StorePost post_body
  | StoreDelete nat
  | OpenSelectKey
  | HasSelectedApiKey
  | ConsoleError string

fun is_provider_call :: "call \<Rightarrow> bool" where
  "is_provider_call (GenerateContent _ _) = True"
| "is_provider_call (GenerateVideos _ _) = True"
| "is_provider_call (GetVideosOperation _ _) = True"
| "is_provider_call (Download _ _) = True"
| "is_provider_call _ = False"

fun is_store_call :: "call \<Rightarrow> bool" where
  "is_store_call StoreGet = True"
| "is_store_call (StorePost _) = True"
| "is_store_call (StoreDelete _) = True"
| "is_store_call _ = False"

definition is_network_call :: "call \<Rightarrow> bool" where
  "is_network_call c = (is_provider_call c \<or> is_store_call c)"

text \<open>What \<open>fetch\<close> gives: it throws (no connection) or resolves to a response.\<close>

datatype fetch_outcome = FetchThrows string | Fetched response

text \<open>
  The store as one request sees it: whether the request reaches the server, whether the
  database statement succeeds, and the database clock.
\<close>

record store_env =
  net_up :: bool
  db_up :: bool
  now :: nat

text \<open>The mapping of a stored row to a \<open>GenerationResult\<close> in \<open>fetchHistory\<close>.\<close>

definition row_to_result :: "row \<Rightarrow> generation_result" where
  "row_to_result item =
     \<lparr>gr_id = Some (row_id item), gr_type = row_type item, url = row_data item,
      gr_prompt = row_prompt item, gr_text = row_text item, sources = row_sources item\<rparr>"

text \<open>
  \<open>fetchHistory\<close>, given what \<open>fetch('/api/history')\<close> returned. A body that is not an
  array makes \<open>data.map\<close> throw, which the \<open>catch\<close> logs.
\<close>

definition fetchHistory :: "fetch_outcome \<Rightarrow> app_state \<Rightarrow> app_state \<times> call list" where
  "fetchHistory outcome s =
     (case outcome of
        FetchThrows e \<Rightarrow> (s, [StoreGet, ConsoleError ''Failed to fetch history:''])
      | Fetched resp \<Rightarrow>
          if ok resp
          then (case body resp of
                  RowsBody data \<Rightarrow> (s\<lparr>results := map row_to_result data\<rparr>, [StoreGet])
                | _ \<Rightarrow> (s, [StoreGet, ConsoleError ''Failed to fetch history:'']))
          else (s, [StoreGet]))"

text \<open>The array a response carries, if it carries one.\<close>

definition rows_of :: "response \<Rightarrow> row list" where
  "rows_of resp = (case body resp of RowsBody out \<Rightarrow> out | _ \<Rightarrow> [])"

text \<open>\<open>deleteHistoryItem\<close>\<close>

definition deleteHistoryItem ::
  "store_env \<Rightarrow> nat \<Rightarrow> app_state \<times> database \<Rightarrow> (app_state \<times> database) \<times> call list" where
  "deleteHistoryItem se i sd =
     (case sd of (s, db) \<Rightarrow>
        if \<not> net_up se
        then ((s, db), [StoreDelete i, ConsoleError ''Failed to delete item:''])
        else
          (case delete_history (db_up se) i db of (resp, db') \<Rightarrow>
             if ok resp
             then ((s\<lparr>results := filter (\<lambda>r. gr_id r \<noteq> Some i) (results s)\<rparr>, db'),
                   [StoreDelete i])
             else ((s, db'), [StoreDelete i])))"

section \<open>The provider gateway (geminiService)\<close>

record resp_part =
  inlineData :: "media option"

record web_ref =
  web_title :: "string option"
  web_uri :: "string option"

record grounding_chunk =
  web :: "web_ref option"

text \<open>
  What the gateway reads of a \<open>generateContent\<close> response:
  \<open>response.candidates?.[0]?.content?.parts\<close>, \<open>response.text\<close> and
  \<open>response.candidates?.[0]?.groundingMetadata?.groundingChunks\<close>.
\<close>

record gc_response =
  resp_parts :: "resp_part list option"
  resp_text :: "string option"
  resp_groundingChunks :: "grounding_chunk list option"

record blob =
  blob_type :: string
  blob_base64 :: string

datatype download_outcome = DownloadThrows string | Downloaded bool blob

text \<open>
  The remote provider. A call throws an \<open>Error\<close> with a message (\<open>Inl\<close>) or returns.
  Each call gets the API key; the answer to a status query may depend on how many
  queries came before it and on the handle it is given.
\<close>

record provider =
  generateContent :: "string \<Rightarrow> gc_request \<Rightarrow> string + gc_response"
  generateVideos :: "string \<Rightarrow> video_config \<Rightarrow> string + operation"
  getVideosOperation :: "string \<Rightarrow> nat \<Rightarrow> operation \<Rightarrow> string + operation"
  download :: "string \<Rightarrow> (string \<times> string) list \<Rightarrow> download_outcome"

text \<open>
  The browser around the client: \<open>process.env\<close>, \<open>localStorage\<close>, \<open>window.aistudio\<close>
  (\<open>None\<close> when undefined, else what \<open>hasSelectedApiKey\<close> answers) and the identifier
  the next \<open>URL.createObjectURL\<close> uses.
\<close>

record environment =
  env_API_KEY :: "string option"
  env_GEMINI_API_KEY :: "string option"
  lumina_api_key :: "string option"
  aistudio :: "bool option"
  object_url_id :: string

definition checkVeoKey :: "environment \<Rightarrow> bool \<times> call list" where
  "checkVeoKey env = (case aistudio env of None \<Rightarrow> (True, []) | Some b \<Rightarrow> (b, [HasSelectedApiKey]))"

definition openVeoKeyDialog :: "environment \<Rightarrow> call list" where
  "openVeoKeyDialog env = (case aistudio env of None \<Rightarrow> [] | Some b \<Rightarrow> [OpenSelectKey])"

definition getApiKey :: "environment \<Rightarrow> string" where
  "getApiKey env =
     (if truthy (lumina_api_key env) then the (lumina_api_key env)
      else or_else (env_API_KEY env) (or_else (env_GEMINI_API_KEY env) []))"

definition data_uri :: "string \<Rightarrow> string \<Rightarrow> string" where
  "data_uri mimeType d = ''data:'' @ mimeType @ '';base64,'' @ d"

text \<open>
  The shape every gateway operation shares: one \<open>generateContent\<close> call in a \<open>try\<close>
  whose \<open>catch\<close> logs and throws the error again.
\<close>

definition try_generateContent ::
  "provider \<Rightarrow> environment \<Rightarrow> gc_request \<Rightarrow> string \<Rightarrow> (gc_response \<Rightarrow> 'a) \<Rightarrow> (string + 'a) \<times> call list" where
  "try_generateContent prov env req label f =
     (case generateContent prov (getApiKey env) req of
        Inl e \<Rightarrow> (Inl e, [GenerateContent (getApiKey env) req, ConsoleError label])
      | Inr response \<Rightarrow> (Inr (f response), [GenerateContent (getApiKey env) req]))"

text \<open>The loop over the parts that returns the first inline payload as a data URI.\<close>

fun first_inline_data :: "resp_part list \<Rightarrow> string option" where
  "first_inline_data [] = None"
| "first_inline_data (part # ps) =
     (case inlineData part of
        Some d \<Rightarrow> Some (data_uri (media_mimeType d) (media_data d))
      | None \<Rightarrow> first_inline_data ps)"

definition parts_or_empty :: "gc_response \<Rightarrow> resp_part list" where
  "parts_or_empty response = (case resp_parts response of None \<Rightarrow> [] | Some ps \<Rightarrow> ps)"

definition generateImage :: "provider \<Rightarrow> environment \<Rightarrow> string \<Rightarrow> (string + string option) \<times> call list" where
  "generateImage prov env p =
     try_generateContent prov env
       \<lparr>gc_model = ''gemini-2.5-flash-image'', gc_contents = [TextPart p],
        gc_config = ImageConfig ''1:1''\<rparr>
       ''Error generating image:''
       (\<lambda>response. first_inline_data (parts_or_empty response))"

definition chunk_to_source :: "grounding_chunk \<Rightarrow> string \<times> string option" where
  "chunk_to_source chunk =
     (or_else (case web chunk of None \<Rightarrow> None | Some w \<Rightarrow> web_title w) ''Source'',
      case web chunk of None \<Rightarrow> None | Some w \<Rightarrow> web_uri w)"

definition extract_sources :: "gc_response \<Rightarrow> citation list" where
  "extract_sources response =
     (case resp_groundingChunks response of
        None \<Rightarrow> []
      | Some chunks \<Rightarrow>
          map (\<lambda>s. \<lparr>title = fst s, uri = the (snd s)\<rparr>)
            (filter (\<lambda>s. truthy (snd s)) (map chunk_to_source chunks)))"

definition researchWithSearch ::
  "provider \<Rightarrow> environment \<Rightarrow> string \<Rightarrow> (string + string \<times> citation list) \<times> call list" where
  "researchWithSearch prov env p =
     try_generateContent prov env
       \<lparr>gc_model = ''gemini-3.1-pro-preview'', gc_contents = [TextPart p],
        gc_config = GoogleSearch\<rparr>
       ''Error in research:''
       (\<lambda>response. (or_else (resp_text response) ''No research results.'',
                     extract_sources response))"

definition summarizeUrl ::
  "provider \<Rightarrow> environment \<Rightarrow> string \<Rightarrow> string option \<Rightarrow> (string + string option) \<times> call list" where
  "summarizeUrl prov env u p =
     try_generateContent prov env
       \<lparr>gc_model = ''gemini-3.1-pro-preview'',
        gc_contents = [TextPart (or_else p ''Summarize the content of this URL:'' @ '' '' @ u)],
        gc_config = UrlContext\<rparr>
       ''Error summarizing URL:''
       (\<lambda>response. Some (or_else (resp_text response) ''Failed to summarize URL.''))"

definition analyzeImage ::
  "provider \<Rightarrow> environment \<Rightarrow> string \<Rightarrow> string \<Rightarrow> string \<Rightarrow> (string + string option) \<times> call list" where
  "analyzeImage prov env base64Image mimeType p =
     try_generateContent prov env
       \<lparr>gc_model = ''gemini-3.1-pro-preview'',
        gc_contents = [InlineData base64Image mimeType,
                       TextPart (or_else (Some p) ''Analyze this image in detail.'')],
        gc_config = NoConfig\<rparr>
       ''Error analyzing image:''
       (\<lambda>response. Some (or_else (resp_text response) ''No analysis generated.''))"

definition generateSpeech :: "provider \<Rightarrow> environment \<Rightarrow> string \<Rightarrow> (string + string option) \<times> call list" where
  "generateSpeech prov env t =
     try_generateContent prov env
       \<lparr>gc_model = ''gemini-2.5-flash-preview-tts'', gc_contents = [TextPart t],
        gc_config = SpeechVoice ''Kore''\<rparr>
       ''Error generating speech:''
       (\<lambda>response.
          let base64Audio =
                (case parts_or_empty response of
                   [] \<Rightarrow> None
                 | part # ps \<Rightarrow> map_option media_data (inlineData part))
          in if truthy base64Audio then Some (''data:audio/wav;base64,'' @ the base64Audio)
             else None)"

definition transcribeAudio ::
  "provider \<Rightarrow> environment \<Rightarrow> string \<Rightarrow> string \<Rightarrow> (string + string option) \<times> call list" where
  "transcribeAudio prov env base64Audio mimeType =
     try_generateContent prov env
       \<lparr>gc_model = ''gemini-3-flash-preview'',
        gc_contents = [InlineData base64Audio mimeType,
                       TextPart ''Transcribe this audio accurately.''],
        gc_config = NoConfig\<rparr>
       ''Error transcribing audio:''
       (\<lambda>response. Some (or_else (resp_text response) ''No transcription generated.''))"

definition editImage ::
  "provider \<Rightarrow> environment \<Rightarrow> string \<Rightarrow> string \<Rightarrow> string \<Rightarrow> (string + string option) \<times> call list" where
  "editImage prov env base64Image mimeType p =
     try_generateContent prov env
       \<lparr>gc_model = ''gemini-2.5-flash-image'',
        gc_contents = [InlineData base64Image mimeType, TextPart p],
        gc_config = NoConfig\<rparr>
       ''Error editing image:''
       (\<lambda>response. first_inline_data (parts_or_empty response))"

subsection \<open>Video generation: issue, poll, download\<close>

text \<open>
  The \<open>while (!operation.done)\<close> loop. \<open>k\<close> counts the status queries made so far and
  \<open>tr\<close> collects the calls. The loop has no bound: where the provider never reports
  \<open>done\<close> it does not return, which is the value \<open>None\<close>.
\<close>

partial_function (option) poll ::
  "provider \<Rightarrow> string \<Rightarrow> nat \<Rightarrow> operation \<Rightarrow> call list \<Rightarrow> ((string + operation) \<times> call list) option" where
  "poll prov apiKey k operation tr =
     (if op_done operation then Some (Inr operation, tr)
      else
        (case getVideosOperation prov apiKey k operation of
           Inl e \<Rightarrow> Some (Inl e, tr @ [Sleep 10000, GetVideosOperation apiKey operation])
         | Inr operation' \<Rightarrow>
             poll prov apiKey (Suc k) operation'
               (tr @ [Sleep 10000, GetVideosOperation apiKey operation])))"

declare poll.simps [code]

definition createObjectURL :: "environment \<Rightarrow> string" where
  "createObjectURL env = ''blob:'' @ object_url_id env"

definition video_request :: "string \<Rightarrow> aspect_ratio \<Rightarrow> media option \<Rightarrow> video_config" where
  "video_request p ar img =
     \<lparr>vc_model = ''veo-3.1-fast-generate-preview'', vc_prompt = p, vc_numberOfVideos = 1,
      vc_resolution = ''720p'', vc_aspectRatio = aspect_name ar, vc_image = img\<rparr>"

text \<open>
  The \<open>try\<close> block of \<open>generateVideo\<close>. The result holds the outcome (a thrown message, or
  the returned \<open>string | null\<close>), the calls, and the object URLs created with their blobs.
\<close>

definition generateVideo_try ::
  "provider \<Rightarrow> environment \<Rightarrow> string \<Rightarrow> aspect_ratio \<Rightarrow> media option \<Rightarrow>
     ((string + string option) \<times> call list \<times> (string \<times> blob) list) option" where
  "generateVideo_try prov env p ar img =
     (let apiKey = getApiKey env; config = video_request p ar img in
      case generateVideos prov apiKey config of
        Inl e \<Rightarrow> Some (Inl e, [GenerateVideos apiKey config], [])
      | Inr operation0 \<Rightarrow>
          (case poll prov apiKey 0 operation0 [GenerateVideos apiKey config] of
             None \<Rightarrow> None
           | Some (Inl e, tr) \<Rightarrow> Some (Inl e, tr, [])
           | Some (Inr operation, tr) \<Rightarrow>
               if \<not> truthy (op_uri operation) then Some (Inr None, tr, [])
               else
                 let downloadLink = the (op_uri operation);
                     headers = [(''x-goog-api-key'', or_else (Some apiKey) [])]
                 in (case download prov downloadLink headers of
                       DownloadThrows e \<Rightarrow> Some (Inl e, tr @ [Download downloadLink headers], [])
                     | Downloaded response_ok b \<Rightarrow>
                         if \<not> response_ok
                         then Some (Inl ''Failed to download video'',
                                    tr @ [Download downloadLink headers], [])
                         else Some (Inr (Some (createObjectURL env)),
                                    tr @ [Download downloadLink headers],
                                    [(createObjectURL env, b)]))))"

text \<open>\<open>generateVideo\<close>: the \<open>try\<close> block under its \<open>catch\<close>.\<close>

definition generateVideo ::
  "provider \<Rightarrow> environment \<Rightarrow> string \<Rightarrow> aspect_ratio \<Rightarrow> media option \<Rightarrow>
     ((string + string option) \<times> call list \<times> (string \<times> blob) list) option" where
  "generateVideo prov env p ar img =
     (case generateVideo_try prov env p ar img of
        None \<Rightarrow> None
      | Some (Inl e, tr, blobs) \<Rightarrow>
          Some (Inl (if str_includes e ''Requested entity was not found''
                     then ''API_KEY_EXPIRED'' else e),
                tr @ [ConsoleError ''Error generating video:''], blobs)
      | Some (Inr r, tr, blobs) \<Rightarrow> Some (Inr r, tr, blobs))"

section \<open>The mode dispatcher (handleGenerate)\<close>

text \<open>The four variables the \<open>try\<close> block fills before it persists.\<close>

record generated =
  resultUrl :: "string option"
  resultText :: "string option"
  resultSources :: "citation list option"
  resultType :: string

text \<open>
  \<open>FileReader.readAsDataURL\<close>: a data URI of the blob's type and its bytes in base64 (the
  blob holds its bytes in that form).
\<close>

definition readAsDataURL :: "blob \<Rightarrow> string" where
  "readAsDataURL b = data_uri (blob_type b) (blob_base64 b)"

text \<open>
  The \<open>if\<close>/\<open>else if\<close> chain that calls the gateway operation of the mode. Without a
  matching branch the variables keep their initial values.
\<close>

definition lift_url :: "string \<Rightarrow> (string + string option) \<times> call list \<Rightarrow>
     ((string + generated) \<times> call list \<times> (string \<times> blob) list) option" where
  "lift_url ty r =
     (case r of
        (Inl e, tr) \<Rightarrow> Some (Inl e, tr, [])
      | (Inr u, tr) \<Rightarrow>
          Some (Inr \<lparr>resultUrl = u, resultText = None, resultSources = None,
                     resultType = ty\<rparr>, tr, []))"

definition lift_text :: "string \<Rightarrow> string option \<Rightarrow> (string + string option) \<times> call list \<Rightarrow>
     ((string + generated) \<times> call list \<times> (string \<times> blob) list) option" where
  "lift_text ty u r =
     (case r of
        (Inl e, tr) \<Rightarrow> Some (Inl e, tr, [])
      | (Inr t, tr) \<Rightarrow>
          Some (Inr \<lparr>resultUrl = u, resultText = t, resultSources = None,
                     resultType = ty\<rparr>, tr, []))"

definition dispatch ::
  "provider \<Rightarrow> environment \<Rightarrow> app_state \<Rightarrow>
     ((string + generated) \<times> call list \<times> (string \<times> blob) list) option" where
  "dispatch prov env s =
     (if mode s = ImageEdit \<and> uploadedImage s \<noteq> None then
        lift_url ''image''
          (editImage prov env (media_data (the (uploadedImage s)))
             (media_mimeType (the (uploadedImage s)))
             (or_else (Some (prompt s)) ''Enhance this image''))
      else if mode s = VideoGen then
        (case generateVideo prov env (prompt s) (aspectRatio s) (uploadedImage s) of
           None \<Rightarrow> None
         | Some (Inl e, tr, blobs) \<Rightarrow> Some (Inl e, tr, blobs)
         | Some (Inr u, tr, blobs) \<Rightarrow>
             Some (Inr \<lparr>resultUrl = u, resultText = None, resultSources = None,
                        resultType = ''video''\<rparr>, tr, blobs))
      else if mode s = Analyze \<and> uploadedImage s \<noteq> None then
        lift_text ''analysis''
          (Some (data_uri (media_mimeType (the (uploadedImage s)))
                   (media_data (the (uploadedImage s)))))
          (analyzeImage prov env (media_data (the (uploadedImage s)))
             (media_mimeType (the (uploadedImage s))) (prompt s))
      else if mode s = Speech then
        lift_url ''audio'' (generateSpeech prov env (prompt s))
      else if mode s = Transcribe \<and> recordedAudio s \<noteq> None then
        lift_text ''transcription''
          (Some (data_uri (media_mimeType (the (recordedAudio s)))
                   (media_data (the (recordedAudio s)))))
          (transcribeAudio prov env (media_data (the (recordedAudio s)))
             (media_mimeType (the (recordedAudio s))))
      else if mode s = GenerateImage then
        lift_url ''image'' (generateImage prov env (prompt s))
      else if mode s = Research then
        (case researchWithSearch prov env (prompt s) of
           (Inl e, tr) \<Rightarrow> Some (Inl e, tr, [])
         | (Inr research, tr) \<Rightarrow>
             Some (Inr \<lparr>resultUrl = Some [], resultText = Some (fst research),
                        resultSources = Some (snd research), resultType = ''research''\<rparr>,
                   tr, []))
      else if mode s = Summarize then
        lift_text ''summary'' (Some []) (summarizeUrl prov env (prompt s) None)
      else
        Some (Inr \<lparr>resultUrl = None, resultText = None, resultSources = None,
                   resultType = ''image''\<rparr>, [], []))"

text \<open>
  The result materializer: \<open>persistentData\<close>. A \<open>blob:\<close> URL of video mode is fetched from
  the object URLs of the session and read as a data URI; anything else is kept.
\<close>

definition materialize ::
  "mode \<Rightarrow> string option \<Rightarrow> (string \<times> blob) list \<Rightarrow> (string + string) \<times> call list" where
  "materialize m rurl blobs =
     (let persistentData = or_else rurl [] in
      if m = VideoGen \<and> truthy rurl \<and> prefix ''blob:'' (the rurl)
      then (case map_of blobs (the rurl) of
              None \<Rightarrow> (Inl ''Failed to fetch'', [FetchBlob (the rurl)])
            | Some b \<Rightarrow> (Inr (readAsDataURL b), [FetchBlob (the rurl)]))
      else (Inr persistentData, []))"

text \<open>\<open>fetch('/api/history', {method: 'POST', ...})\<close> against the store.\<close>

definition store_post :: "store_env \<Rightarrow> post_body \<Rightarrow> database \<Rightarrow> fetch_outcome \<times> database" where
  "store_post se b db =
     (if \<not> net_up se then (FetchThrows ''Failed to fetch'', db)
      else (case post_history (now se) (db_up se) b db of (resp, db') \<Rightarrow> (Fetched resp, db')))"

definition item_to_result :: "saved_item \<Rightarrow> generation_result" where
  "item_to_result savedItem =
     \<lparr>gr_id = Some (item_id savedItem), gr_type = item_type savedItem,
      url = item_data savedItem, gr_prompt = item_prompt savedItem,
      gr_text = item_text savedItem, sources = item_sources savedItem\<rparr>"

text \<open>
  The create step of \<open>handleGenerate\<close>: post the record and, when the store answers ok,
  put the saved item at the head of the list and clear the inputs. The store answers ok
  only with the saved item.
\<close>

definition save_result ::
  "store_env \<Rightarrow> post_body \<Rightarrow> app_state \<times> database \<Rightarrow>
     ((string + app_state) \<times> database) \<times> call list" where
  "save_result se b sd =
     (case sd of (s, db) \<Rightarrow>
        (case store_post se b db of
           (FetchThrows e, db') \<Rightarrow> ((Inl e, db'), [StorePost b])
         | (Fetched resp, db') \<Rightarrow>
             if ok resp
             then (case body resp of
                     ItemBody savedItem \<Rightarrow>
                       ((Inr (s\<lparr>results := item_to_result savedItem # results s,
                                 prompt := [], recordedAudio := None\<rparr>), db'),
                        [StorePost b])
                   | _ \<Rightarrow> ((Inl ''TypeError'', db'), [StorePost b]))
             else ((Inr s, db'), [StorePost b])))"

definition default_prompt :: "app_state \<Rightarrow> string" where
  "default_prompt s =
     or_else (Some (prompt s))
       (if mode s = ImageEdit then ''Image Edit''
        else if mode s = Analyze then ''Image Analysis'' else ''Generation'')"

text \<open>The \<open>try\<close> block of \<open>handleGenerate\<close>; \<open>Inl\<close> is the message of the error thrown.\<close>

definition generate_try ::
  "provider \<Rightarrow> environment \<Rightarrow> store_env \<Rightarrow> app_state \<times> database \<Rightarrow>
     (((string + app_state) \<times> database) \<times> call list) option" where
  "generate_try prov env se sd =
     (case sd of (s, db) \<Rightarrow>
        if \<not> truthy (env_GEMINI_API_KEY env)
        then Some ((Inl ''Gemini API Key is missing. Please configure it in the Secrets panel.'',
                    db), [])
        else
          (case dispatch prov env s of
             None \<Rightarrow> None
           | Some (Inl e, tr, blobs) \<Rightarrow> Some ((Inl e, db), tr)
           | Some (Inr g, tr, blobs) \<Rightarrow>
               if resultUrl g = None \<and> \<not> truthy (resultText g)
               then Some ((Inl ''The AI model returned no content. Please try a different prompt or check your connection.'',
                           db), tr)
               else if resultUrl g \<noteq> None \<or> truthy (resultText g)
               then (case materialize (mode s) (resultUrl g) blobs of
                       (Inl e, tr2) \<Rightarrow> Some ((Inl e, db), tr @ tr2)
                     | (Inr persistentData, tr2) \<Rightarrow>
                         (case save_result se
                                 \<lparr>body_type = Some (resultType g),
                                  body_data = Some persistentData,
                                  body_prompt = Some (default_prompt s),
                                  body_text = resultText g,
                                  body_sources = resultSources g\<rparr> (s, db) of
                            (r, tr3) \<Rightarrow> Some (r, tr @ tr2 @ tr3)))
               else Some ((Inr s, db), tr)))"

text \<open>
  \<open>handleGenerate\<close>: the three precondition checks, the credential selection of video mode, the
  \<open>try\<close> block, its \<open>catch\<close> and its \<open>finally\<close>.
\<close>

definition handleGenerate ::
  "provider \<Rightarrow> environment \<Rightarrow> store_env \<Rightarrow> app_state \<times> database \<Rightarrow>
     ((app_state \<times> database) \<times> call list) option" where
  "handleGenerate prov env se sd =
     (case sd of (s, db) \<Rightarrow>
        if prompt s = [] \<and> (mode s = VideoGen \<or> mode s = Speech \<or> mode s = GenerateImage
                              \<or> mode s = Research \<or> mode s = Summarize)
        then Some ((s\<lparr>error := Some (''Please enter a prompt or URL for '' @ mode_name (mode s)
                                      @ '' generation.'')\<rparr>, db), [])
        else if uploadedImage s = None \<and> (mode s = ImageEdit \<or> mode s = Analyze)
        then Some ((s\<lparr>error := Some ''Please upload an image.''\<rparr>, db), [])
        else if recordedAudio s = None \<and> mode s = Transcribe
        then Some ((s\<lparr>error := Some ''Please record some audio first.''\<rparr>, db), [])
        else
          let needsKey = mode s = VideoGen \<and> \<not> hasKey s;
              selected = fst (checkVeoKey env);
              tr0 = (if needsKey then openVeoKeyDialog env @ snd (checkVeoKey env) else []);
              s1 = (if needsKey then s\<lparr>hasKey := selected\<rparr> else s)
          in if needsKey \<and> \<not> selected then Some ((s1, db), tr0)
             else
               (case generate_try prov env se (s1\<lparr>isGenerating := True, error := None\<rparr>, db) of
                  None \<Rightarrow> None
                | Some ((Inl err, db'), tr) \<Rightarrow>
                    if err = ''API_KEY_EXPIRED''
                    then Some ((s1\<lparr>isGenerating := False,
                                   error := Some ''API Key expired or invalid. Please select a valid paid project key.'',
                                   hasKey := False\<rparr>, db'), tr0 @ tr)
                    else Some ((s1\<lparr>isGenerating := False,
                                   error := Some ''Generation failed. Please try again.''\<rparr>, db'),
                               tr0 @ tr)
                | Some ((Inr s2, db'), tr) \<Rightarrow>
                    Some ((s2\<lparr>isGenerating := False\<rparr>, db'), tr0 @ tr)))"

section \<open>Observing a run\<close>

text \<open>
  The provider reports \<open>done\<close> after exactly \<open>n\<close> status queries, counted from the
  handle \<open>h\<close> and the \<open>k\<close> queries made before: \<open>h\<close> and the answers to the first
  \<open>n - 1\<close> queries are not done, no query fails, and the answer to the \<open>n\<close>-th is done.
\<close>

primrec done_after :: "provider \<Rightarrow> string \<Rightarrow> nat \<Rightarrow> operation \<Rightarrow> nat \<Rightarrow> bool" where
  "done_after prov apiKey k h 0 = op_done h"
| "done_after prov apiKey k h (Suc n) =
     (\<not> op_done h \<and>
      (case getVideosOperation prov apiKey k h of
         Inl e \<Rightarrow> False
       | Inr h' \<Rightarrow> done_after prov apiKey (Suc k) h' n))"

text \<open>
  The handles of the first \<open>n\<close> queries when each query is made with the handle the one
  before it returned, and the handle that is left after them.
\<close>

primrec handles :: "provider \<Rightarrow> string \<Rightarrow> nat \<Rightarrow> operation \<Rightarrow> nat \<Rightarrow> operation list" where
  "handles prov apiKey k h 0 = []"
| "handles prov apiKey k h (Suc n) =
     h # (case getVideosOperation prov apiKey k h of
            Inl e \<Rightarrow> []
          | Inr h' \<Rightarrow> handles prov apiKey (Suc k) h' n)"

primrec final_handle :: "provider \<Rightarrow> string \<Rightarrow> nat \<Rightarrow> operation \<Rightarrow> nat \<Rightarrow> operation" where
  "final_handle prov apiKey k h 0 = h"
| "final_handle prov apiKey k h (Suc n) =
     (case getVideosOperation prov apiKey k h of
        Inl e \<Rightarrow> h
      | Inr h' \<Rightarrow> final_handle prov apiKey (Suc k) h' n)"

definition poll_calls :: "string \<Rightarrow> operation list \<Rightarrow> call list" where
  "poll_calls apiKey hs = concat (map (\<lambda>h. [Sleep 10000, GetVideosOperation apiKey h]) hs)"

fun is_status_query :: "call \<Rightarrow> bool" where
  "is_status_query (GetVideosOperation _ _) = True"
| "is_status_query _ = False"

fun is_download :: "call \<Rightarrow> bool" where
  "is_download (Download _ _) = True"
| "is_download _ = False"

text \<open>The records a run posts to the store.\<close>

definition posts :: "call list \<Rightarrow> post_body list" where
  "posts tr = concat (map (\<lambda>c. case c of StorePost b \<Rightarrow> [b] | _ \<Rightarrow> []) tr)"

text \<open>
  The state and the store after the create step, whether it saved the record or not.
\<close>

definition after_save :: "store_env \<Rightarrow> post_body \<Rightarrow> app_state \<times> database \<Rightarrow> app_state \<times> database" where
  "after_save se b sd =
     (case save_result se b sd of
        ((Inl e, db'), tr) \<Rightarrow> (fst sd, db')
      | ((Inr s', db'), tr) \<Rightarrow> (s', db'))"

text \<open>
  The row the store inserts for a record under identifier \<open>i\<close> at time \<open>t\<close>, the entry
  the client lists for it, and the condition under which the store accepts a record.
\<close>

definition entry_of :: "nat \<Rightarrow> post_body \<Rightarrow> generation_result" where
  "entry_of i b =
     \<lparr>gr_id = Some i, gr_type = the (body_type b), url = the (body_data b),
      gr_prompt = the (body_prompt b), gr_text = body_text b, sources = body_sources b\<rparr>"

definition row_of :: "nat \<Rightarrow> post_body \<Rightarrow> nat \<Rightarrow> row" where
  "row_of i b t =
     \<lparr>row_id = i, row_type = the (body_type b), row_data = the (body_data b),
      row_prompt = the (body_prompt b), row_text = body_text b,
      row_sources = body_sources b, row_timestamp = t\<rparr>"

definition complete_body :: "post_body \<Rightarrow> bool" where
  "complete_body b = (truthy (body_type b) \<and> truthy (body_data b) \<and> truthy (body_prompt b))"

text \<open>Every entry of the list in memory is a row of the store.\<close>

definition listed_in_store :: "app_state \<Rightarrow> database \<Rightarrow> bool" where
  "listed_in_store s db = (gr_id ` set (results s) \<subseteq> Some ` row_id ` set (rows db))"

section \<open>Concrete inputs\<close>

definition demo_env :: environment where
  "demo_env = \<lparr>env_API_KEY = None, env_GEMINI_API_KEY = Some ''env-key'',
     lumina_api_key = None, aistudio = None, object_url_id = ''session/1''\<rparr>"

definition store_up :: "nat \<Rightarrow> store_env" where
  "store_up t = \<lparr>net_up = True, db_up = True, now = t\<rparr>"

definition empty_db :: database where
  "empty_db = \<lparr>rows = [], seq = 0\<rparr>"

definition idle :: app_state where
  "idle = \<lparr>mode = ImageEdit, prompt = [], uploadedImage = None, isGenerating = False,
     results = [], error = None, hasKey = False, aspectRatio = Landscape,
     recordedAudio = None\<rparr>"

text \<open>A provider that is never reached.\<close>

definition offline :: provider where
  "offline =
     \<lparr>generateContent = (\<lambda>k r. Inl ''unavailable''),
      generateVideos = (\<lambda>k c. Inl ''unavailable''),
      getVideosOperation = (\<lambda>k n h. Inl ''unavailable''),
      download = (\<lambda>u h. DownloadThrows ''unavailable'')\<rparr>"

text \<open>Two stored rows.\<close>

definition row_a :: row where
  "row_a = \<lparr>row_id = 1, row_type = ''image'', row_data = ''data:image/png;base64,AAAA'',
     row_prompt = ''a'', row_text = None, row_sources = None, row_timestamp = 10\<rparr>"

definition row_b :: row where
  "row_b = \<lparr>row_id = 2, row_type = ''audio'', row_data = ''data:audio/wav;base64,BBBB'',
     row_prompt = ''b'', row_text = None, row_sources = None, row_timestamp = 20\<rparr>"

text \<open>A provider answering research with a text and two citations, one without a URI.\<close>

definition research_stub :: provider where
  "research_stub =
     \<lparr>generateContent = (\<lambda>k r. Inr \<lparr>resp_parts = None, resp_text = Some ''T'',
          resp_groundingChunks = Some
            [\<lparr>web = Some \<lparr>web_title = Some ''One'', web_uri = Some ''https://one.example''\<rparr>\<rparr>,
             \<lparr>web = Some \<lparr>web_title = Some ''Two'', web_uri = None\<rparr>\<rparr>]\<rparr>),
      generateVideos = (\<lambda>k c. Inl ''unavailable''),
      getVideosOperation = (\<lambda>k n h. Inl ''unavailable''),
      download = (\<lambda>u h. DownloadThrows ''unavailable'')\<rparr>"

text \<open>A provider answering every request with a text only.\<close>

definition summary_stub :: provider where
  "summary_stub =
     \<lparr>generateContent = (\<lambda>k r. Inr \<lparr>resp_parts = None, resp_text = Some ''A short summary.'',
          resp_groundingChunks = None\<rparr>),
      generateVideos = (\<lambda>k c. Inl ''unavailable''),
      getVideosOperation = (\<lambda>k n h. Inl ''unavailable''),
      download = (\<lambda>u h. DownloadThrows ''unavailable'')\<rparr>"

text \<open>A provider whose video is done at the second status query.\<close>

definition slow_video :: provider where
  "slow_video =
     \<lparr>generateContent = (\<lambda>k r. Inl ''unavailable''),
      generateVideos = (\<lambda>k c. Inr \<lparr>op_name = ''op-0'', op_done = False, op_uri = None\<rparr>),
      getVideosOperation = (\<lambda>k n h.
         if n = 0 then Inr \<lparr>op_name = ''op-1'', op_done = False, op_uri = None\<rparr>
         else Inr \<lparr>op_name = ''op-2'', op_done = True,
                   op_uri = Some ''https://video.example/v1''\<rparr>),
      download = (\<lambda>u h. Downloaded True \<lparr>blob_type = ''video/mp4'', blob_base64 = ''VVVV''\<rparr>)\<rparr>"

text \<open>A provider whose operation is done at once and carries no video.\<close>

definition no_video :: provider where
  "no_video =
     \<lparr>generateContent = (\<lambda>k r. Inl ''unavailable''),
      generateVideos = (\<lambda>k c. Inr \<lparr>op_name = ''op-0'', op_done = True, op_uri = None\<rparr>),
      getVideosOperation = (\<lambda>k n h. Inr h),
      download = (\<lambda>u h. Downloaded True \<lparr>blob_type = ''video/mp4'', blob_base64 = ''VVVV''\<rparr>)\<rparr>"

definition video_ready :: app_state where
  "video_ready = idle\<lparr>mode := VideoGen, prompt := ''a dog'', hasKey := True\<rparr>"


text \<open>A record of an image analysis with the given prompt.\<close>

definition analysis_body :: "string \<Rightarrow> post_body" where
  "analysis_body p =
     \<lparr>body_type = Some ''analysis'', body_data = Some ''data:image/png;base64,AAAA'',
      body_prompt = Some p, body_text = Some ''A description.'', body_sources = None\<rparr>"

section \<open>Basic facts\<close>

lemma truthy_simps [simp]: "truthy None = False" "truthy (Some t) = (t \<noteq> [])"
  by (simp_all add: truthy_def)

lemma or_else_simps [simp]:
  "or_else None d = d" "or_else (Some []) d = d" "t \<noteq> [] \<Longrightarrow> or_else (Some t) d = t"
  by (simp_all add: or_else_def)

lemma or_else_nonempty: "d \<noteq> [] \<Longrightarrow> or_else v d \<noteq> []"
  by (simp add: or_else_def split: option.splits)

section \<open>Precondition checks\<close>

text \<open>
  Claim C1. For every mode, generating with the required input of the mode missing (no
  uploaded image for image-edit and analyze, an empty prompt for video-gen,
  generate-image, research, summarize and speech, no recorded audio for transcribe) sets
  the error message of the rule that failed and returns at once: no call is made, neither
  to the provider nor to the store, and nothing else of the state or the store changes.
\<close>

theorem missing_input_is_rejected_before_any_call:
  assumes "((mode s = ImageEdit \<or> mode s = Analyze) \<and> uploadedImage s = None)
         \<or> ((mode s = VideoGen \<or> mode s = GenerateImage \<or> mode s = Research
              \<or> mode s = Summarize \<or> mode s = Speech) \<and> prompt s = [])
         \<or> (mode s = Transcribe \<and> recordedAudio s = None)"
  shows "handleGenerate prov env se (s, db) =
           Some ((s\<lparr>error := Some
                    (if mode s = ImageEdit \<or> mode s = Analyze then ''Please upload an image.''
                     else if mode s = Transcribe then ''Please record some audio first.''
                     else ''Please enter a prompt or URL for '' @ mode_name (mode s)
                            @ '' generation.'')\<rparr>, db), [])"
  using assms unfolding handleGenerate_def by auto

theorem missing_input_is_rejected_witness:
  "handleGenerate offline demo_env (store_up 7) (idle\<lparr>mode := Research\<rparr>, empty_db) =
     Some ((idle\<lparr>mode := Research,
                 error := Some ''Please enter a prompt or URL for research generation.''\<rparr>,
            empty_db), [])"
  using missing_input_is_rejected_before_any_call
          [of "idle\<lparr>mode := Research\<rparr>" offline demo_env "store_up 7" empty_db]
  by (simp add: idle_def)

section \<open>The environment key\<close>

text \<open>
  Claim C10. When \<open>GEMINI_API_KEY\<close> is absent from the environment, generation ends for
  every mode without a call to the provider or to the store, and neither the store nor the
  list of results changes; once the inputs pass the precondition checks (and, in video
  mode, the credential selection) the message shown is the generic failure message. This
  holds whatever key the user saved locally, although \<open>getApiKey\<close> would use that key
  before the environment's.
\<close>

theorem missing_environment_key_stops_generation:
  assumes "\<not> truthy (env_GEMINI_API_KEY env)"
  shows "\<exists>s' tr. handleGenerate prov env se (s, db) = Some ((s', db), tr)
           \<and> filter is_network_call tr = [] \<and> results s' = results s
           \<and> (truthy (lumina_api_key env) \<longrightarrow> getApiKey env = the (lumina_api_key env))
           \<and> ((prompt s \<noteq> [] \<or> mode s = ImageEdit \<or> mode s = Analyze \<or> mode s = Transcribe)
              \<and> (uploadedImage s \<noteq> None \<or> (mode s \<noteq> ImageEdit \<and> mode s \<noteq> Analyze))
              \<and> (recordedAudio s \<noteq> None \<or> mode s \<noteq> Transcribe)
              \<and> (hasKey s \<or> mode s \<noteq> VideoGen \<or> aistudio env \<noteq> Some False)
              \<longrightarrow> error s' = Some ''Generation failed. Please try again.'')"
  using assms unfolding handleGenerate_def generate_try_def
  by (auto simp: Let_def checkVeoKey_def openVeoKeyDialog_def is_network_call_def
        getApiKey_def split: option.splits)

theorem missing_environment_key_witness:
  "\<exists>s' tr. handleGenerate offline
       (demo_env\<lparr>env_GEMINI_API_KEY := None, lumina_api_key := Some ''user-key''\<rparr>)
       (store_up 7) (idle\<lparr>mode := GenerateImage, prompt := ''a cat''\<rparr>, empty_db)
     = Some ((s', empty_db), tr)
     \<and> filter is_network_call tr = [] \<and> results s' = []
     \<and> getApiKey (demo_env\<lparr>env_GEMINI_API_KEY := None, lumina_api_key := Some ''user-key''\<rparr>)
         = ''user-key''
     \<and> error s' = Some ''Generation failed. Please try again.''"
  using missing_environment_key_stops_generation
          [of "demo_env\<lparr>env_GEMINI_API_KEY := None, lumina_api_key := Some ''user-key''\<rparr>"
              offline "store_up 7" "idle\<lparr>mode := GenerateImage, prompt := ''a cat''\<rparr>" empty_db]
  by (simp add: idle_def demo_env_def truthy_def)

section \<open>Reloading the history\<close>

text \<open>
  Claim C9 as stated fails: when the store answers the list request with status 500 the
  state is left as it was, its error message included, and nothing is logged; no error
  is surfaced.
\<close>

theorem failed_list_surfaces_no_error:
  "get_history False empty_db \<lparr>status = 500, body = ErrorBody ''Failed to fetch history''\<rparr>
   \<and> fetchHistory (Fetched \<lparr>status = 500, body = ErrorBody ''Failed to fetch history''\<rparr>) idle
       = (idle, [StoreGet])
   \<and> error idle = None"
  by (simp add: get_history_def fetchHistory_def ok_def idle_def)

text \<open>
  Claim C9, amended. When the list request fails the whole state, and so the list in
  memory, is left unchanged and the failure is not fatal: a response that is not ok
  (such as the 500 of a failing database) is passed over silently, and a request that
  throws is only logged to the console; the error message of the state is not set. When
  the store answers, the list in memory is replaced by the rows of the answer, nothing of
  the old list being kept.
\<close>

theorem failed_list_keeps_snapshot:
  "(\<not> ok resp \<longrightarrow> fetchHistory (Fetched resp) s = (s, [StoreGet]))
   \<and> fetchHistory (FetchThrows e) s = (s, [StoreGet, ConsoleError ''Failed to fetch history:''])
   \<and> (get_history False db resp \<longrightarrow> \<not> ok resp)
   \<and> (get_history True db resp \<longrightarrow>
         orders_by_timestamp_desc (rows db) (rows_of resp)
         \<and> fetchHistory (Fetched resp) s
             = (s\<lparr>results := map row_to_result (rows_of resp)\<rparr>, [StoreGet]))"
  by (auto simp: fetchHistory_def get_history_def ok_def rows_of_def split: json_body.splits)

theorem failed_list_keeps_snapshot_witness:
  "fetchHistory (Fetched \<lparr>status = 500, body = ErrorBody ''Failed to fetch history''\<rparr>)
       (idle\<lparr>results := [row_to_result row_a]\<rparr>)
     = (idle\<lparr>results := [row_to_result row_a]\<rparr>, [StoreGet])
   \<and> fetchHistory (Fetched \<lparr>status = 200, body = RowsBody [row_b, row_a]\<rparr>)
       (idle\<lparr>results := [row_to_result row_a]\<rparr>)
     = (idle\<lparr>results := [row_to_result row_b, row_to_result row_a]\<rparr>, [StoreGet])"
proof -
  have bad: "\<not> ok \<lparr>status = 500, body = ErrorBody ''Failed to fetch history''\<rparr>"
    by (simp add: ok_def)
  have good: "get_history True \<lparr>rows = [row_a, row_b], seq = 2\<rparr>
                \<lparr>status = 200, body = RowsBody [row_b, row_a]\<rparr>"
    by (simp add: get_history_def orders_by_timestamp_desc_def row_a_def row_b_def)
  from bad failed_list_keeps_snapshot
             [of "\<lparr>status = 500, body = ErrorBody ''Failed to fetch history''\<rparr>"
                 "idle\<lparr>results := [row_to_result row_a]\<rparr>"]
  have first:
    "fetchHistory (Fetched \<lparr>status = 500, body = ErrorBody ''Failed to fetch history''\<rparr>)
       (idle\<lparr>results := [row_to_result row_a]\<rparr>)
     = (idle\<lparr>results := [row_to_result row_a]\<rparr>, [StoreGet])"
    by blast
  from good failed_list_keeps_snapshot
              [of "\<lparr>status = 200, body = RowsBody [row_b, row_a]\<rparr>"
                  "idle\<lparr>results := [row_to_result row_a]\<rparr>" "[]"
                  "\<lparr>rows = [row_a, row_b], seq = 2\<rparr>"]
  have second:
    "fetchHistory (Fetched \<lparr>status = 200, body = RowsBody [row_b, row_a]\<rparr>)
       (idle\<lparr>results := [row_to_result row_a]\<rparr>)
     = (idle\<lparr>results := [row_to_result row_b, row_to_result row_a]\<rparr>, [StoreGet])"
    by (simp add: rows_of_def)
  from first second show ?thesis by simp
qed

section \<open>Deleting\<close>

lemma filter_absent_row: "i \<notin> row_id ` set rs \<Longrightarrow> filter (\<lambda>r. row_id r \<noteq> i) rs = rs"
  by (induction rs) auto

lemma filter_absent_result:
  "Some i \<notin> gr_id ` set rs \<Longrightarrow> filter (\<lambda>r. gr_id r \<noteq> Some i) rs = rs"
  by (induction rs) auto

text \<open>
  The list in memory stays within the store: it does at the start, when the list is
  empty, and \<open>fetchHistory\<close>, \<open>handleGenerate\<close> and \<open>deleteHistoryItem\<close> keep it so.
\<close>

lemma listed_in_store_updates [simp]:
  "listed_in_store (s\<lparr>isGenerating := g\<rparr>) db = listed_in_store s db"
  "listed_in_store (s\<lparr>error := e\<rparr>) db = listed_in_store s db"
  "listed_in_store (s\<lparr>hasKey := h\<rparr>) db = listed_in_store s db"
  "listed_in_store (s\<lparr>prompt := p\<rparr>) db = listed_in_store s db"
  "listed_in_store (s\<lparr>recordedAudio := a\<rparr>) db = listed_in_store s db"
  by (simp_all add: listed_in_store_def)

lemma listed_after_fetch:
  assumes "get_history up db resp" and "listed_in_store s db"
  shows "listed_in_store (fst (fetchHistory (Fetched resp) s)) db"
proof (cases up)
  case True
  with assms(1) have "mset (rows_of resp) = mset (rows db)" and "ok resp"
    and "body resp = RowsBody (rows_of resp)"
    by (auto simp: get_history_def orders_by_timestamp_desc_def rows_of_def ok_def
          split: json_body.splits)
  then show ?thesis
    by (auto simp: listed_in_store_def fetchHistory_def row_to_result_def dest: mset_eq_setD)
next
  case False
  with assms show ?thesis
    by (simp add: get_history_def fetchHistory_def ok_def)
qed

lemma listed_after_fetch_throws:
  "listed_in_store s db \<Longrightarrow> listed_in_store (fst (fetchHistory (FetchThrows e) s)) db"
  by (simp add: fetchHistory_def)

lemma save_result_cases:
  assumes "save_result se b (s, db) = ((r, db'), tr)"
  shows "(db' = db \<and> (r = Inr s \<or> (\<exists>e. r = Inl e)))
         \<or> (r = Inr (s\<lparr>results := entry_of (Suc (seq db)) b # results s, prompt := [],
                        recordedAudio := None\<rparr>)
            \<and> db' = db\<lparr>rows := rows db @ [row_of (Suc (seq db)) b (now se)],
                        seq := Suc (seq db)\<rparr>)"
proof (cases "net_up se")
  case False
  with assms show ?thesis by (auto simp: save_result_def store_post_def)
next
  case up: True
  show ?thesis
  proof (cases "complete_body b \<and> db_up se")
    case True
    with assms up show ?thesis
      by (auto simp: save_result_def store_post_def post_history_def complete_body_def ok_def
            Let_def item_to_result_def entry_of_def row_of_def)
  next
    case False
    then have "\<not> complete_body b \<or> (complete_body b \<and> \<not> db_up se)" by blast
    then show ?thesis
    proof
      assume "\<not> complete_body b"
      with assms up show ?thesis
        by (auto simp: save_result_def store_post_def post_history_def complete_body_def ok_def)
    next
      assume "complete_body b \<and> \<not> db_up se"
      with assms up show ?thesis
        by (auto simp: save_result_def store_post_def post_history_def complete_body_def ok_def)
    qed
  qed
qed

lemma listed_after_insert:
  "listed_in_store s db \<Longrightarrow>
     listed_in_store (s\<lparr>results := entry_of i b # results s\<rparr>)
       (db\<lparr>rows := rows db @ [row_of i b t], seq := i\<rparr>)"
  by (auto simp: listed_in_store_def entry_of_def row_of_def)

lemma listed_more_rows:
  "listed_in_store s db \<Longrightarrow> listed_in_store s (db\<lparr>rows := rows db @ rs, seq := i\<rparr>)"
  by (auto simp: listed_in_store_def)

lemma listed_after_save_Inr:
  assumes "save_result se b (s, db) = ((Inr s', db'), tr)" and "listed_in_store s db"
  shows "listed_in_store s' db'"
  using save_result_cases [OF assms(1)] assms(2)
  by (auto simp: listed_after_insert)

lemma listed_after_save_Inl:
  assumes "save_result se b (s, db) = ((Inl e, db'), tr)" and "listed_in_store s db"
  shows "listed_in_store s db'"
  using save_result_cases [OF assms(1)] assms(2)
  by auto

lemma listed_after_delete:
  assumes "listed_in_store s db"
  shows "listed_in_store (fst (fst (deleteHistoryItem se i (s, db))))
           (snd (fst (deleteHistoryItem se i (s, db))))"
  using assms
  by (auto simp: listed_in_store_def deleteHistoryItem_def delete_history_def ok_def)

lemma generate_try_cases:
  assumes "generate_try prov env se (s, db) = Some ((r, db'), tr)"
  shows "(db' = db \<and> (r = Inr s \<or> (\<exists>e. r = Inl e)))
         \<or> (\<exists>b tr'. save_result se b (s, db) = ((r, db'), tr'))"
proof (cases "truthy (env_GEMINI_API_KEY env)")
  case False
  with assms show ?thesis by (auto simp: generate_try_def)
next
  case True
  show ?thesis
  proof (cases "dispatch prov env s")
    case None
    with assms True show ?thesis by (simp add: generate_try_def)
  next
    case (Some a)
    obtain x trd blobs where a: "a = (x, trd, blobs)" by (cases a)
    show ?thesis
    proof (cases x)
      case (Inl e)
      with assms True Some a show ?thesis by (auto simp: generate_try_def)
    next
      case (Inr g)
      obtain o2 tr2 where mz: "materialize (mode s) (resultUrl g) blobs = (o2, tr2)"
        by (cases "materialize (mode s) (resultUrl g) blobs")
      show ?thesis
      proof (cases o2)
        case (Inl e)
        with assms True Some a Inr mz show ?thesis
          by (auto simp: generate_try_def split: if_splits)
      next
        case d: (Inr d)
        with assms True Some a Inr mz show ?thesis
          by (auto simp: generate_try_def split: if_splits prod.splits)
      qed
    qed
  qed
qed

lemma listed_after_generate_try_Inr:
  assumes "generate_try prov env se (s, db) = Some ((Inr s', db'), tr)" and "listed_in_store s db"
  shows "listed_in_store s' db'"
  using generate_try_cases [OF assms(1)] assms(2)
  by (auto dest: listed_after_save_Inr)

lemma listed_after_generate_try_Inl:
  assumes "generate_try prov env se (s, db) = Some ((Inl e, db'), tr)" and "listed_in_store s db"
  shows "listed_in_store s db'"
  using generate_try_cases [OF assms(1)] assms(2)
  by (auto dest: listed_after_save_Inl)

lemma listed_after_generate:
  assumes run: "handleGenerate prov env se (s, db) = Some ((s', db'), tr)"
      and l: "listed_in_store s db"
  shows "listed_in_store s' db'"
proof -
  let ?needsKey = "mode s = VideoGen \<and> \<not> hasKey s"
  let ?s1 = "if ?needsKey then s\<lparr>hasKey := fst (checkVeoKey env)\<rparr> else s"
  let ?s2 = "?s1\<lparr>isGenerating := True, error := None\<rparr>"
  have l2: "listed_in_store ?s2 db" using l by simp
  consider (early) "db' = db" "results s' = results s"
    | (tried) r tr' where "generate_try prov env se (?s2, db) = Some ((r, db'), tr')"
        "case r of Inl err \<Rightarrow> results s' = results s | Inr s3 \<Rightarrow> s' = s3\<lparr>isGenerating := False\<rparr>"
    using run unfolding handleGenerate_def
    by (simp add: Let_def split: if_splits option.splits sum.splits prod.splits) auto
  then show ?thesis
  proof cases
    case early
    with l show ?thesis by (simp add: listed_in_store_def)
  next
    case tried
    show ?thesis
    proof (cases r)
      case (Inl err)
      with tried listed_after_generate_try_Inl [OF _ l2] have "listed_in_store ?s2 db'" by blast
      with tried Inl show ?thesis by (simp add: listed_in_store_def split: if_splits)
    next
      case (Inr s3)
      with tried listed_after_generate_try_Inr [OF _ l2] have "listed_in_store s3 db'" by blast
      with tried Inr show ?thesis by simp
    qed
  qed
qed

text \<open>
  Claim C8 as stated fails: the list holds an entry whose row is no longer in the store
  (as after a clearing of the history that a network error interrupted, or a deletion made
  elsewhere). Deleting its identifier, which the store does not hold, is answered with
  success, and the client removes the entry: the list in memory is altered.
\<close>

theorem stale_entry_is_removed_by_delete:
  "1 \<notin> row_id ` set (rows \<lparr>rows = [row_b], seq = 2\<rparr>)
   \<and> fst (deleteHistoryItem (store_up 30) 1
          (idle\<lparr>results := [row_to_result row_b, row_to_result row_a]\<rparr>,
           \<lparr>rows = [row_b], seq = 2\<rparr>))
     = (idle\<lparr>results := [row_to_result row_b]\<rparr>, \<lparr>rows = [row_b], seq = 2\<rparr>)
   \<and> [row_to_result row_b] \<noteq> [row_to_result row_b, row_to_result row_a]"
  by (simp add: deleteHistoryItem_def delete_history_def store_up_def ok_def row_a_def
        row_b_def row_to_result_def idle_def)

text \<open>
  Claim C8, amended. Deleting an identifier that no row of the store carries raises no
  error and leaves the store as it was: the handler answers with success (status 200),
  and the absence of the identifier is not an error. When the request succeeds the list
  in memory loses exactly the entries that carry the identifier, and nothing else of the
  state changes; so the list is unaltered when no entry carries the identifier, which is
  the case whenever each listed entry is a row of the store, and an entry whose row is
  already gone is removed. When the request does not reach the store or the database
  fails, the state is as it was.
\<close>

theorem delete_absent_identifier_keeps_store:
  assumes absent: "i \<notin> row_id ` set (rows db)"
  shows "delete_history True i db = (\<lparr>status = 200, body = SuccessBody True\<rparr>, db)
         \<and> fst (deleteHistoryItem se i (s, db))
             = (if net_up se \<and> db_up se
                then s\<lparr>results := filter (\<lambda>r. gr_id r \<noteq> Some i) (results s)\<rparr> else s, db)
         \<and> error (fst (fst (deleteHistoryItem se i (s, db)))) = error s
         \<and> (Some i \<notin> gr_id ` set (results s) \<longrightarrow> fst (deleteHistoryItem se i (s, db)) = (s, db))
         \<and> (listed_in_store s db \<longrightarrow> fst (deleteHistoryItem se i (s, db)) = (s, db))
         \<and> (net_up se \<longrightarrow> snd (deleteHistoryItem se i (s, db)) = [StoreDelete i])"
proof -
  from absent have d: "filter (\<lambda>r. row_id r \<noteq> i) (rows db) = rows db"
    by (rule filter_absent_row)
  have run: "fst (deleteHistoryItem se i (s, db))
             = (if net_up se \<and> db_up se
                then s\<lparr>results := filter (\<lambda>r. gr_id r \<noteq> Some i) (results s)\<rparr> else s, db)"
    by (simp add: deleteHistoryItem_def delete_history_def d ok_def)
  have c: "filter (\<lambda>r. gr_id r \<noteq> Some i) (results s) = results s"
    if "Some i \<notin> gr_id ` set (results s)"
    using that by (rule filter_absent_result)
  have l: "Some i \<notin> gr_id ` set (results s)" if "listed_in_store s db"
    using that absent by (auto simp: listed_in_store_def)
  have c1: "delete_history True i db = (\<lparr>status = 200, body = SuccessBody True\<rparr>, db)"
    by (simp add: delete_history_def d)
  have c3: "error (fst (fst (deleteHistoryItem se i (s, db)))) = error s"
    by (simp add: run)
  have c4: "Some i \<notin> gr_id ` set (results s) \<longrightarrow> fst (deleteHistoryItem se i (s, db)) = (s, db)"
    by (simp add: run c)
  have c5: "listed_in_store s db \<longrightarrow> fst (deleteHistoryItem se i (s, db)) = (s, db)"
    using l by (simp add: run c)
  have c6: "net_up se \<longrightarrow> snd (deleteHistoryItem se i (s, db)) = [StoreDelete i]"
    by (simp add: deleteHistoryItem_def delete_history_def ok_def)
  show ?thesis
    by (intro conjI) (rule c1, rule run, rule c3, rule c4, rule c5, rule c6)
qed

theorem delete_absent_identifier_witness:
  "fst (deleteHistoryItem (store_up 30) 5
          (idle\<lparr>results := [row_to_result row_b, row_to_result row_a]\<rparr>,
           \<lparr>rows = [row_a, row_b], seq = 2\<rparr>))
     = (idle\<lparr>results := [row_to_result row_b, row_to_result row_a]\<rparr>,
        \<lparr>rows = [row_a, row_b], seq = 2\<rparr>)
   \<and> fst (deleteHistoryItem (store_up 30) 1
          (idle\<lparr>results := [row_to_result row_b, row_to_result row_a]\<rparr>,
           \<lparr>rows = [row_b], seq = 2\<rparr>))
     = (idle\<lparr>results := [row_to_result row_b]\<rparr>, \<lparr>rows = [row_b], seq = 2\<rparr>)"
  using delete_absent_identifier_keeps_store
          [of 5 "\<lparr>rows = [row_a, row_b], seq = 2\<rparr>" "store_up 30"
              "idle\<lparr>results := [row_to_result row_b, row_to_result row_a]\<rparr>"]
        delete_absent_identifier_keeps_store
          [of 1 "\<lparr>rows = [row_b], seq = 2\<rparr>" "store_up 30"
              "idle\<lparr>results := [row_to_result row_b, row_to_result row_a]\<rparr>"]
  by (simp add: row_a_def row_b_def row_to_result_def idle_def store_up_def)

section \<open>Text-only results\<close>

lemma empty_data_rejected:
  "body_data b = Some [] \<Longrightarrow> net_up se \<Longrightarrow>
     save_result se b (s, db) = ((Inr s, db), [StorePost b])"
  by (simp add: post_history_def save_result_def store_post_def ok_def)

text \<open>
  Claim C4, on the code. A research or summary result has a text and the empty string
  as its asset. Whatever the provider answers, the client posts it with \<open>data\<close> empty and
  the store refuses it with status 400 (\<open>!data\<close> holds of the empty string): no row is
  inserted, no entry is put at the head of the list, and no error is shown.
\<close>

theorem text_only_result_is_refused_by_store:
  assumes m: "mode s = Research \<or> mode s = Summarize"
      and p: "prompt s \<noteq> []"
      and k: "truthy (env_GEMINI_API_KEY env)"
      and g: "\<And>req. generateContent prov (getApiKey env) req = Inr (answer req)"
      and n: "net_up se"
  shows "\<exists>req b. handleGenerate prov env se (s, db)
            = Some ((s\<lparr>isGenerating := False, error := None\<rparr>, db),
                    [GenerateContent (getApiKey env) req, StorePost b])
          \<and> body_data b = Some [] \<and> truthy (body_text b)
          \<and> post_history (now se) (db_up se) b db
              = (\<lparr>status = 400, body = ErrorBody ''Missing required fields''\<rparr>, db)"
  using m
proof
  assume r: "mode s = Research"
  show ?thesis using r p k n
    by (simp add: handleGenerate_def generate_try_def dispatch_def researchWithSearch_def
          try_generateContent_def g materialize_def empty_data_rejected or_else_nonempty
          post_history_def)
next
  assume r: "mode s = Summarize"
  show ?thesis using r p k n
    by (simp add: handleGenerate_def generate_try_def dispatch_def summarizeUrl_def lift_text_def
          try_generateContent_def g materialize_def empty_data_rejected or_else_nonempty
          post_history_def)
qed

theorem text_only_result_is_refused_witness:
  "handleGenerate summary_stub demo_env (store_up 5)
      (idle\<lparr>mode := Summarize, prompt := ''https://example.org''\<rparr>, empty_db)
   = Some ((idle\<lparr>mode := Summarize, prompt := ''https://example.org''\<rparr>, empty_db),
       [GenerateContent ''env-key''
          \<lparr>gc_model = ''gemini-3.1-pro-preview'',
           gc_contents = [TextPart ''Summarize the content of this URL: https://example.org''],
           gc_config = UrlContext\<rparr>,
        StorePost \<lparr>body_type = Some ''summary'', body_data = Some [],
           body_prompt = Some ''https://example.org'', body_text = Some ''A short summary.'',
           body_sources = None\<rparr>])"
proof -
  have g: "\<And>req. generateContent summary_stub (getApiKey demo_env) req
             = Inr \<lparr>resp_parts = None, resp_text = Some ''A short summary.'',
                    resp_groundingChunks = None\<rparr>"
    by (simp add: summary_stub_def)
  have m: "mode (idle\<lparr>mode := Summarize, prompt := ''https://example.org''\<rparr>) = Research
           \<or> mode (idle\<lparr>mode := Summarize, prompt := ''https://example.org''\<rparr>) = Summarize"
    by simp
  have p: "prompt (idle\<lparr>mode := Summarize, prompt := ''https://example.org''\<rparr>) \<noteq> []"
    by simp
  have k: "truthy (env_GEMINI_API_KEY demo_env)"
    by (simp add: demo_env_def)
  have n: "net_up (store_up 5)"
    by (simp add: store_up_def)
  from text_only_result_is_refused_by_store [OF m p k g n, of empty_db] show ?thesis
    by (simp add: handleGenerate_def generate_try_def dispatch_def summarizeUrl_def lift_text_def
          try_generateContent_def summary_stub_def materialize_def
          idle_def demo_env_def getApiKey_def default_prompt_def
          save_result_def store_post_def post_history_def store_up_def ok_def)
qed

section \<open>Research citations\<close>

text \<open>The citations a research call returns all have a URI, in the order of the chunks.\<close>

lemma extract_sources_have_uri: "c \<in> set (extract_sources r) \<Longrightarrow> uri c \<noteq> []"
  by (auto simp: extract_sources_def truthy_def split: option.splits)

lemma extract_sources_order:
  "resp_groundingChunks r = Some chunks \<Longrightarrow>
     map (\<lambda>c. (title c, Some (uri c))) (extract_sources r)
       = filter (\<lambda>s. truthy (snd s)) (map chunk_to_source chunks)"
  by (auto simp: extract_sources_def comp_def truthy_def split: option.splits intro!: map_idI)

text \<open>
  Claim C6, on the code. For the prompt "AI trends" and a provider that answers with a
  text and two citations, one of them without a URI, \<open>researchWithSearch\<close> returns the one
  citation that has a URI; the client posts it with an empty \<open>data\<close>, the store refuses
  the record, and nothing is persisted: the table stays empty and so does the list.
\<close>

theorem research_citations_are_not_persisted:
  "fst (researchWithSearch research_stub demo_env ''AI trends'')
     = Inr (''T'', [\<lparr>title = ''One'', uri = ''https://one.example''\<rparr>])
   \<and> handleGenerate research_stub demo_env (store_up 5)
        (idle\<lparr>mode := Research, prompt := ''AI trends''\<rparr>, empty_db)
     = Some ((idle\<lparr>mode := Research, prompt := ''AI trends''\<rparr>, empty_db),
        [GenerateContent ''env-key''
           \<lparr>gc_model = ''gemini-3.1-pro-preview'', gc_contents = [TextPart ''AI trends''],
            gc_config = GoogleSearch\<rparr>,
         StorePost \<lparr>body_type = Some ''research'', body_data = Some [],
            body_prompt = Some ''AI trends'', body_text = Some ''T'',
            body_sources = Some [\<lparr>title = ''One'', uri = ''https://one.example''\<rparr>]\<rparr>])"
  by (simp add: handleGenerate_def generate_try_def dispatch_def researchWithSearch_def
        try_generateContent_def research_stub_def extract_sources_def chunk_to_source_def
        idle_def demo_env_def store_up_def empty_db_def getApiKey_def
        materialize_def save_result_def store_post_def post_history_def default_prompt_def ok_def)

section \<open>Video generation\<close>

lemma poll_calls_simps [simp]:
  "poll_calls apiKey [] = []"
  "poll_calls apiKey (h # hs) = Sleep 10000 # GetVideosOperation apiKey h # poll_calls apiKey hs"
  by (simp_all add: poll_calls_def)

lemma poll_done_after:
  "done_after prov apiKey k h n \<Longrightarrow>
     poll prov apiKey k h tr
       = Some (Inr (final_handle prov apiKey k h n), tr @ poll_calls apiKey (handles prov apiKey k h n))"
proof (induction n arbitrary: k h tr)
  case 0
  then show ?case by (subst poll.simps) simp
next
  case (Suc n)
  from Suc.prems obtain h' where nd: "\<not> op_done h"
    and q: "getVideosOperation prov apiKey k h = Inr h'"
    and rest: "done_after prov apiKey (Suc k) h' n"
    by (auto split: sum.splits)
  from Suc.IH [OF rest] nd q show ?case
    by (subst poll.simps) simp
qed

lemma length_handles: "done_after prov apiKey k h n \<Longrightarrow> length (handles prov apiKey k h n) = n"
  by (induction n arbitrary: k h) (auto split: sum.splits)

lemma final_handle_done: "done_after prov apiKey k h n \<Longrightarrow> op_done (final_handle prov apiKey k h n)"
  by (induction n arbitrary: k h) (auto split: sum.splits)

lemma filter_status_poll_calls [simp]:
  "filter is_status_query (poll_calls apiKey hs) = map (GetVideosOperation apiKey) hs"
  by (induction hs) simp_all

lemma filter_download_poll_calls [simp]:
  "filter is_download (poll_calls apiKey hs) = []"
  by (induction hs) simp_all

text \<open>
  Claim C2 as stated fails: a provider may report the operation done without a video in
  it (here at once, after no status query); \<open>generateVideo\<close> then returns \<open>null\<close> and
  makes no download.
\<close>

theorem finished_operation_without_video_is_not_downloaded:
  "generateVideos no_video (getApiKey demo_env) (video_request ''a dog'' Landscape None)
     = Inr \<lparr>op_name = ''op-0'', op_done = True, op_uri = None\<rparr>
   \<and> done_after no_video (getApiKey demo_env) 0 \<lparr>op_name = ''op-0'', op_done = True, op_uri = None\<rparr> 0
   \<and> generateVideo no_video demo_env ''a dog'' Landscape None
     = Some (Inr None, [GenerateVideos ''env-key'' (video_request ''a dog'' Landscape None)], [])
   \<and> filter is_download [GenerateVideos ''env-key'' (video_request ''a dog'' Landscape None)] = []"
  by (simp add: generateVideo_def generateVideo_try_def no_video_def demo_env_def getApiKey_def
       poll.simps)

text \<open>
  Claim C2, amended. When the provider reports done after exactly \<open>n\<close> status queries
  (\<open>n \<ge> 0\<close>), \<open>generateVideo\<close> returns, having made exactly \<open>n\<close> status queries, each
  with the handle the query before it returned, all of them before anything else that
  follows the issuance. If the finished operation carries a video URI, exactly one
  download follows, of that URI as it is, with the API key in the header
  \<open>x-goog-api-key\<close>; if it carries none, no download is made.
\<close>

theorem polling_makes_exactly_n_queries:
  assumes issue: "generateVideos prov (getApiKey env) (video_request p ar img) = Inr h0"
      and fin: "done_after prov (getApiKey env) 0 h0 n"
  shows "\<exists>r tr blobs. generateVideo prov env p ar img = Some (r, tr, blobs)
           \<and> filter is_status_query tr
               = map (GetVideosOperation (getApiKey env)) (handles prov (getApiKey env) 0 h0 n)
           \<and> length (filter is_status_query tr) = n
           \<and> filter is_download tr
               = (if truthy (op_uri (final_handle prov (getApiKey env) 0 h0 n))
                  then [Download (the (op_uri (final_handle prov (getApiKey env) 0 h0 n)))
                          [(''x-goog-api-key'', getApiKey env)]]
                  else [])
           \<and> (\<exists>rest. tr = GenerateVideos (getApiKey env) (video_request p ar img)
                         # poll_calls (getApiKey env) (handles prov (getApiKey env) 0 h0 n) @ rest
                    \<and> filter is_status_query rest = [])"
proof -
  let ?k = "getApiKey env"
  have pl: "poll prov ?k 0 h0 [GenerateVideos ?k (video_request p ar img)]
         = Some (Inr (final_handle prov ?k 0 h0 n),
                 [GenerateVideos ?k (video_request p ar img)] @ poll_calls ?k (handles prov ?k 0 h0 n))"
    using fin by (rule poll_done_after)
  have key: "or_else (Some ?k) [] = ?k" by (cases "?k = []") simp_all
  show ?thesis
    using issue pl key length_handles [OF fin]
    by (auto simp: generateVideo_def generateVideo_try_def Let_def split: download_outcome.splits)
qed

text \<open>
  When the finished operation carries no video URI, \<open>generateVideo\<close> returns \<open>null\<close> after
  the issuance and the status queries alone.
\<close>

lemma finished_without_video_returns_null:
  assumes issue: "generateVideos prov (getApiKey env) (video_request p ar img) = Inr h0"
      and fin: "done_after prov (getApiKey env) 0 h0 n"
      and none: "\<not> truthy (op_uri (final_handle prov (getApiKey env) 0 h0 n))"
  shows "generateVideo prov env p ar img
           = Some (Inr None,
                   GenerateVideos (getApiKey env) (video_request p ar img)
                     # poll_calls (getApiKey env) (handles prov (getApiKey env) 0 h0 n), [])"
proof -
  let ?k = "getApiKey env"
  have pl: "poll prov ?k 0 h0 [GenerateVideos ?k (video_request p ar img)]
         = Some (Inr (final_handle prov ?k 0 h0 n),
                 [GenerateVideos ?k (video_request p ar img)] @ poll_calls ?k (handles prov ?k 0 h0 n))"
    using fin by (rule poll_done_after)
  show ?thesis
    using issue pl none
    by (simp add: generateVideo_def generateVideo_try_def Let_def)
qed

lemma slow_video_is_done_after_two:
  "done_after slow_video (getApiKey demo_env) 0
     \<lparr>op_name = ''op-0'', op_done = False, op_uri = None\<rparr> (Suc (Suc 0))"
  by (simp add: slow_video_def)

lemma slow_video_poll:
  "poll slow_video ''env-key'' 0 \<lparr>op_name = ''op-0'', op_done = False, op_uri = None\<rparr>
     [GenerateVideos ''env-key'' (video_request ''a dog'' Landscape None)]
   = Some (Inr \<lparr>op_name = ''op-2'', op_done = True, op_uri = Some ''https://video.example/v1''\<rparr>,
       [GenerateVideos ''env-key'' (video_request ''a dog'' Landscape None),
        Sleep 10000,
        GetVideosOperation ''env-key'' \<lparr>op_name = ''op-0'', op_done = False, op_uri = None\<rparr>,
        Sleep 10000,
        GetVideosOperation ''env-key'' \<lparr>op_name = ''op-1'', op_done = False, op_uri = None\<rparr>])"
  using poll_done_after [OF slow_video_is_done_after_two,
          of "[GenerateVideos ''env-key'' (video_request ''a dog'' Landscape None)]"]
  by (simp add: slow_video_def demo_env_def getApiKey_def)

lemma slow_video_run:
  "generateVideo slow_video demo_env ''a dog'' Landscape None
     = Some (Inr (Some ''blob:session/1''),
         [GenerateVideos ''env-key'' (video_request ''a dog'' Landscape None),
          Sleep 10000,
          GetVideosOperation ''env-key'' \<lparr>op_name = ''op-0'', op_done = False, op_uri = None\<rparr>,
          Sleep 10000,
          GetVideosOperation ''env-key'' \<lparr>op_name = ''op-1'', op_done = False, op_uri = None\<rparr>,
          Download ''https://video.example/v1'' [(''x-goog-api-key'', ''env-key'')]],
         [(''blob:session/1'', \<lparr>blob_type = ''video/mp4'', blob_base64 = ''VVVV''\<rparr>)])"
  using slow_video_poll
  by (simp add: generateVideo_def generateVideo_try_def demo_env_def getApiKey_def
        createObjectURL_def slow_video_def Let_def)

theorem polling_makes_exactly_n_queries_witness:
  "\<exists>r tr blobs. generateVideo slow_video demo_env ''a dog'' Landscape None = Some (r, tr, blobs)
     \<and> filter is_status_query tr
         = [GetVideosOperation ''env-key'' \<lparr>op_name = ''op-0'', op_done = False, op_uri = None\<rparr>,
            GetVideosOperation ''env-key'' \<lparr>op_name = ''op-1'', op_done = False, op_uri = None\<rparr>]
     \<and> length (filter is_status_query tr) = 2
     \<and> filter is_download tr
         = [Download ''https://video.example/v1'' [(''x-goog-api-key'', ''env-key'')]]"
proof -
  have issue: "generateVideos slow_video (getApiKey demo_env) (video_request ''a dog'' Landscape None)
      = Inr \<lparr>op_name = ''op-0'', op_done = False, op_uri = None\<rparr>"
    by (simp add: slow_video_def)
  have k: "getApiKey demo_env = ''env-key''"
    by (simp add: demo_env_def getApiKey_def)
  have hs: "handles slow_video ''env-key'' 0 \<lparr>op_name = ''op-0'', op_done = False, op_uri = None\<rparr>
              (Suc (Suc 0))
            = [\<lparr>op_name = ''op-0'', op_done = False, op_uri = None\<rparr>,
               \<lparr>op_name = ''op-1'', op_done = False, op_uri = None\<rparr>]"
    by (simp add: slow_video_def)
  have fh: "final_handle slow_video ''env-key'' 0
              \<lparr>op_name = ''op-0'', op_done = False, op_uri = None\<rparr> (Suc (Suc 0))
            = \<lparr>op_name = ''op-2'', op_done = True, op_uri = Some ''https://video.example/v1''\<rparr>"
    by (simp add: slow_video_def)
  from polling_makes_exactly_n_queries [OF issue slow_video_is_done_after_two]
  show ?thesis
    unfolding k hs fh by auto
qed

section \<open>What a run posts\<close>

lemma posts_simps [simp]:
  "posts [] = []"
  "posts (tr @ tr') = posts tr @ posts tr'"
  "posts (StorePost b # tr) = b # posts tr"
  "posts (GenerateContent k req # tr) = posts tr"
  "posts (GenerateVideos k cfg # tr) = posts tr"
  "posts (GetVideosOperation k h # tr) = posts tr"
  "posts (Sleep n # tr) = posts tr"
  "posts (Download u hs # tr) = posts tr"
  "posts (FetchBlob u # tr) = posts tr"
  "posts (ConsoleError m # tr) = posts tr"
  "posts (OpenSelectKey # tr) = posts tr"
  "posts (HasSelectedApiKey # tr) = posts tr"
  by (simp_all add: posts_def)

lemma data_not_blob: "prefix ''data:'' u \<Longrightarrow> \<not> prefix ''blob:'' u"
  by (auto simp: prefix_def)

lemma data_uri_not_blob [simp]: "\<not> prefix ''blob:'' (data_uri m d)"
  by (simp add: data_uri_def)

lemma first_inline_data_not_blob: "first_inline_data ps = Some u \<Longrightarrow> \<not> prefix ''blob:'' u"
  by (induction ps) (auto split: option.splits)

lemma try_generateContent_result:
  "try_generateContent prov env req l f = (Inr x, tr) \<Longrightarrow> \<exists>resp. x = f resp"
  by (auto simp: try_generateContent_def split: sum.splits)

lemma try_generateContent_posts [simp]:
  "posts (snd (try_generateContent prov env req l f)) = []"
  by (simp add: try_generateContent_def split: sum.splits)

lemma poll_posts_aux:
  assumes "poll prov apiKey k h tr = Some y"
  shows "posts (snd y) = posts tr"
  by (rule poll.raw_induct
        [where P = "\<lambda>prov apiKey k h tr y. posts (snd y) = posts tr", OF _ assms])
     (auto split: if_splits sum.splits)

lemma poll_posts:
  "poll prov apiKey k h tr = Some (r, tr') \<Longrightarrow> posts tr' = posts tr"
  by (drule poll_posts_aux) simp

lemma generateVideo_try_posts:
  "generateVideo_try prov env p ar img = Some (r, tr, blobs) \<Longrightarrow> posts tr = []"
  by (auto simp: generateVideo_try_def Let_def dest!: poll_posts
        split: sum.splits option.splits if_splits download_outcome.splits)

lemma generateVideo_posts:
  "generateVideo prov env p ar img = Some (r, tr, blobs) \<Longrightarrow> posts tr = []"
  by (auto simp: generateVideo_def dest!: generateVideo_try_posts split: option.splits sum.splits)

lemma generateVideo_try_url:
  "generateVideo_try prov env p ar img = Some (Inr r, tr, blobs) \<Longrightarrow>
     (r = None \<and> blobs = []) \<or> (\<exists>b. r = Some (createObjectURL env) \<and> blobs = [(createObjectURL env, b)])"
  by (auto simp: generateVideo_try_def Let_def
        split: sum.splits option.splits if_splits download_outcome.splits)

lemma generateVideo_url:
  "generateVideo prov env p ar img = Some (Inr r, tr, blobs) \<Longrightarrow>
     (r = None \<and> blobs = []) \<or> (\<exists>b. r = Some (createObjectURL env) \<and> blobs = [(createObjectURL env, b)])"
  by (auto simp: generateVideo_def dest!: generateVideo_try_url split: option.splits sum.splits)


lemma fst_try_generateContent:
  "fst (try_generateContent prov env req l f) = Inr x \<Longrightarrow> \<exists>resp. x = f resp"
  by (auto simp: try_generateContent_def split: sum.splits)

lemma lift_url_Some:
  "lift_url ty r = Some (x, tr, blobs) \<Longrightarrow>
     tr = snd r \<and> blobs = [] \<and> (\<forall>g. x = Inr g \<longrightarrow> fst r = Inr (resultUrl g))"
  by (auto simp: lift_url_def split: prod.splits sum.splits)

lemma lift_text_Some:
  "lift_text ty u r = Some (x, tr, blobs) \<Longrightarrow>
     tr = snd r \<and> blobs = [] \<and> (\<forall>g. x = Inr g \<longrightarrow> resultUrl g = u)"
  by (auto simp: lift_text_def split: prod.splits sum.splits)

lemma gateway_posts [simp]:
  "posts (snd (editImage prov env d m p)) = []"
  "posts (snd (generateImage prov env p)) = []"
  "posts (snd (generateSpeech prov env p)) = []"
  "posts (snd (analyzeImage prov env d m p)) = []"
  "posts (snd (transcribeAudio prov env d m)) = []"
  "posts (snd (summarizeUrl prov env p q)) = []"
  "posts (snd (researchWithSearch prov env p)) = []"
  by (simp_all add: editImage_def generateImage_def generateSpeech_def analyzeImage_def
        transcribeAudio_def summarizeUrl_def researchWithSearch_def)

lemma editImage_url: "fst (editImage prov env d m p) = Inr (Some u) \<Longrightarrow> \<not> prefix ''blob:'' u"
  unfolding editImage_def
  by (drule fst_try_generateContent) (auto dest: first_inline_data_not_blob [OF sym])

lemma generateImage_url: "fst (generateImage prov env p) = Inr (Some u) \<Longrightarrow> \<not> prefix ''blob:'' u"
  unfolding generateImage_def
  by (drule fst_try_generateContent) (auto dest: first_inline_data_not_blob [OF sym])

lemma generateSpeech_url: "fst (generateSpeech prov env p) = Inr (Some u) \<Longrightarrow> \<not> prefix ''blob:'' u"
  unfolding generateSpeech_def
  by (drule fst_try_generateContent) (auto simp: Let_def split: if_splits)

lemma research_posts: "researchWithSearch prov env p = (x, tr) \<Longrightarrow> posts tr = []"
  using gateway_posts(7) [of prov env p] by simp

lemma dispatch_posts: "dispatch prov env s = Some (r, tr, blobs) \<Longrightarrow> posts tr = []"
  unfolding dispatch_def
  by (auto dest!: lift_url_Some lift_text_Some generateVideo_posts research_posts
        split: if_splits option.splits sum.splits prod.splits)

lemma dispatch_url:
  "dispatch prov env s = Some (Inr g, tr, blobs) \<Longrightarrow> mode s \<noteq> VideoGen \<Longrightarrow>
     resultUrl g = Some u \<Longrightarrow> \<not> prefix ''blob:'' u"
  unfolding dispatch_def
  by (auto dest!: lift_url_Some lift_text_Some
        dest: editImage_url generateImage_url generateSpeech_url
        split: if_splits option.splits sum.splits prod.splits)

lemma dispatch_video:
  "dispatch prov env s = Some (Inr g, tr, blobs) \<Longrightarrow> mode s = VideoGen \<Longrightarrow>
     (resultUrl g = None \<and> blobs = [])
     \<or> (\<exists>b. resultUrl g = Some (createObjectURL env) \<and> blobs = [(createObjectURL env, b)])"
  unfolding dispatch_def
  by (auto dest!: generateVideo_url split: if_splits option.splits sum.splits prod.splits)

lemma readAsDataURL_not_blob [simp]: "\<not> prefix ''blob:'' (readAsDataURL b)"
  by (simp add: readAsDataURL_def)

lemma materialize_durable:
  "\<not> prefix ''blob:'' u \<Longrightarrow> materialize m (Some u) blobs = (Inr u, [])"
  by (cases "u = []") (simp_all add: materialize_def)

lemma materialize_posts [simp]: "posts (snd (materialize m r blobs)) = []"
  by (simp add: materialize_def Let_def split: option.splits)

lemma materialize_output:
  assumes "materialize m r blobs = (Inr d, tr)"
      and "m = VideoGen \<Longrightarrow> r = None \<or> (\<exists>b. r = Some (createObjectURL env) \<and> blobs = [(createObjectURL env, b)])"
      and "\<And>u. m \<noteq> VideoGen \<Longrightarrow> r = Some u \<Longrightarrow> \<not> prefix ''blob:'' u"
  shows "\<not> prefix ''blob:'' d"
proof (cases "m = VideoGen")
  case True
  with assms(2) consider "r = None"
    | b where "r = Some (createObjectURL env)" "blobs = [(createObjectURL env, b)]"
    by blast
  then show ?thesis
  proof cases
    case 1
    with assms(1) show ?thesis by (simp add: materialize_def)
  next
    case 2
    with assms(1) True readAsDataURL_not_blob [of b] show ?thesis
      by (auto simp: materialize_def createObjectURL_def split: if_splits)
  qed
next
  case False
  show ?thesis
  proof (cases r)
    case None
    with assms(1) False show ?thesis by (simp add: materialize_def)
  next
    case (Some u)
    with assms(3) False have "\<not> prefix ''blob:'' u" by simp
    with assms(1) Some False show ?thesis
      by (cases "u = []") (simp_all add: materialize_def)
  qed
qed

lemma save_result_posts [simp]: "posts (snd (save_result se b sd)) = [b]"
  by (simp add: save_result_def split: prod.splits fetch_outcome.splits json_body.splits)

lemma save_result_posts': "save_result se b sd = (res, tr) \<Longrightarrow> posts tr = [b]"
  using save_result_posts [of se b sd] by simp

lemma generate_try_posts:
  assumes "generate_try prov env se (s, db) = Some (res, tr)"
  shows "list_all (\<lambda>b. \<exists>d. body_data b = Some d \<and> \<not> prefix ''blob:'' d) (posts tr)"
proof (cases "truthy (env_GEMINI_API_KEY env)")
  case False
  with assms show ?thesis by (auto simp: generate_try_def)
next
  case True
  show ?thesis
  proof (cases "dispatch prov env s")
    case None
    with assms True show ?thesis by (simp add: generate_try_def)
  next
    case (Some a)
    obtain r trd blobs where a: "a = (r, trd, blobs)" by (cases a)
    from Some a have pd: "posts trd = []" by (auto dest: dispatch_posts)
    show ?thesis
    proof (cases r)
      case (Inl e)
      with assms True Some a pd show ?thesis by (auto simp: generate_try_def)
    next
      case (Inr g)
      obtain o2 tr2 where mz: "materialize (mode s) (resultUrl g) blobs = (o2, tr2)"
        by (cases "materialize (mode s) (resultUrl g) blobs")
      have p2: "posts tr2 = []" using materialize_posts [of "mode s" "resultUrl g" blobs] mz by simp
      show ?thesis
      proof (cases o2)
        case (Inl e)
        with assms True Some a Inr mz pd p2 show ?thesis
          by (auto simp: generate_try_def split: if_splits)
      next
        case (Inr d)
        have "\<not> prefix ''blob:'' d"
        proof (rule materialize_output [OF mz [unfolded Inr]])
          assume "mode s = VideoGen"
          with Some a \<open>r = Inr g\<close> dispatch_video [of prov env s g trd blobs]
          show "resultUrl g = None \<or> (\<exists>b. resultUrl g = Some (createObjectURL env) \<and> blobs = [(createObjectURL env, b)])"
            by auto
        next
          fix u assume "mode s \<noteq> VideoGen" "resultUrl g = Some u"
          with Some a \<open>r = Inr g\<close> show "\<not> prefix ''blob:'' u"
            by (auto dest: dispatch_url)
        qed
        with assms True Some a \<open>r = Inr g\<close> mz Inr pd p2 show ?thesis
          by (auto simp: generate_try_def dest!: save_result_posts' split: if_splits prod.splits)
      qed
    qed
  qed
qed

lemma handleGenerate_posts:
  assumes "handleGenerate prov env se (s, db) = Some (sd', tr)"
  shows "list_all (\<lambda>b. \<exists>d. body_data b = Some d \<and> \<not> prefix ''blob:'' d) (posts tr)"
  using assms unfolding handleGenerate_def
  by (auto simp: Let_def checkVeoKey_def openVeoKeyDialog_def dest!: generate_try_posts
        split: if_splits option.splits sum.splits prod.splits)

section \<open>Materializing\<close>

text \<open>
  Claim C7. An asset reference that is not a \<open>blob:\<close> URL is already durable:
  materializing it returns it unchanged and fetches nothing, so the output of a
  materialization, materialized again, comes out the same with no fetch. A fetch is made
  only in video mode, for a \<open>blob:\<close> URL, which is read as a data URI. Whatever
  \<open>handleGenerate\<close> posts to the store carries a \<open>data\<close> field that is not a \<open>blob:\<close>
  URL.
\<close>

theorem materializing_is_idempotent:
  "(\<not> prefix ''blob:'' u \<longrightarrow> materialize m (Some u) blobs = (Inr u, []))
   \<and> (materialize m r blobs = (Inr d, tr) \<longrightarrow> materialize m (Some d) blobs' = (Inr d, []))
   \<and> (snd (materialize m r blobs) \<noteq> [] \<longrightarrow>
        m = VideoGen \<and> (\<exists>v. r = Some v \<and> prefix ''blob:'' v
                             \<and> snd (materialize m r blobs) = [FetchBlob v]))
   \<and> (m = VideoGen \<and> prefix ''blob:'' u \<and> map_of blobs u = Some b \<longrightarrow>
        materialize m (Some u) blobs = (Inr (readAsDataURL b), [FetchBlob u])
        \<and> \<not> prefix ''blob:'' (readAsDataURL b))
   \<and> (handleGenerate prov env se (s, db) = Some (sd', tr') \<longrightarrow>
        list_all (\<lambda>b. \<exists>d. body_data b = Some d \<and> \<not> prefix ''blob:'' d) (posts tr'))"
proof -
  have c1: "\<not> prefix ''blob:'' u \<longrightarrow> materialize m (Some u) blobs = (Inr u, [])"
    by (simp add: materialize_durable)
  have c2: "materialize m r blobs = (Inr d, tr) \<longrightarrow> materialize m (Some d) blobs' = (Inr d, [])"
  proof
    assume a: "materialize m r blobs = (Inr d, tr)"
    show "materialize m (Some d) blobs' = (Inr d, [])"
    proof (cases "m = VideoGen")
      case True
      with a have "\<not> prefix ''blob:'' d"
        by (cases r) (auto simp: materialize_def or_else_def split: option.splits if_splits)
      then show ?thesis by (rule materialize_durable)
    next
      case False
      then show ?thesis by (cases "d = []") (simp_all add: materialize_def)
    qed
  qed
  have c3: "snd (materialize m r blobs) \<noteq> [] \<longrightarrow>
        m = VideoGen \<and> (\<exists>v. r = Some v \<and> prefix ''blob:'' v
                             \<and> snd (materialize m r blobs) = [FetchBlob v])"
    by (cases r) (auto simp: materialize_def split: if_splits option.splits)
  have c4: "m = VideoGen \<and> prefix ''blob:'' u \<and> map_of blobs u = Some b \<longrightarrow>
        materialize m (Some u) blobs = (Inr (readAsDataURL b), [FetchBlob u])
        \<and> \<not> prefix ''blob:'' (readAsDataURL b)"
    by (auto simp: materialize_def)
  have c5: "handleGenerate prov env se (s, db) = Some (sd', tr') \<longrightarrow>
        list_all (\<lambda>b. \<exists>d. body_data b = Some d \<and> \<not> prefix ''blob:'' d) (posts tr')"
    by (simp add: handleGenerate_posts)
  show ?thesis
    by (intro conjI) (rule c1, rule c2, rule c3, rule c4, rule c5)
qed

theorem materializing_is_idempotent_witness:
  "materialize Speech (Some ''data:audio/wav;base64,BBBB'') [] = (Inr ''data:audio/wav;base64,BBBB'', [])
   \<and> materialize VideoGen (Some ''blob:session/1'')
        [(''blob:session/1'', \<lparr>blob_type = ''video/mp4'', blob_base64 = ''VVVV''\<rparr>)]
      = (Inr ''data:video/mp4;base64,VVVV'', [FetchBlob ''blob:session/1''])
   \<and> materialize VideoGen (Some ''data:video/mp4;base64,VVVV'') [] = (Inr ''data:video/mp4;base64,VVVV'', [])"
  using materializing_is_idempotent [of "''data:audio/wav;base64,BBBB''" Speech "[]"]
        materializing_is_idempotent [of "''blob:session/1''" VideoGen
               "[(''blob:session/1'', \<lparr>blob_type = ''video/mp4'', blob_base64 = ''VVVV''\<rparr>)]"
               _ _ _ _ "\<lparr>blob_type = ''video/mp4'', blob_base64 = ''VVVV''\<rparr>"]
        materializing_is_idempotent [of "''data:video/mp4;base64,VVVV''" VideoGen "[]"]
  by (simp add: readAsDataURL_def data_uri_def)

section \<open>Credential expiry\<close>




section \<open>A whole video run\<close>

lemma video_run:
  "handleGenerate slow_video demo_env (store_up 9) (video_ready, empty_db)
     = Some ((video_ready\<lparr>prompt := [],
                results := [\<lparr>gr_id = Some 1, gr_type = ''video'', url = ''data:video/mp4;base64,VVVV'',
                             gr_prompt = ''a dog'', gr_text = None, sources = None\<rparr>]\<rparr>,
              \<lparr>rows = [\<lparr>row_id = 1, row_type = ''video'', row_data = ''data:video/mp4;base64,VVVV'',
                         row_prompt = ''a dog'', row_text = None, row_sources = None,
                         row_timestamp = 9\<rparr>], seq = 1\<rparr>),
         [GenerateVideos ''env-key'' (video_request ''a dog'' Landscape None),
          Sleep 10000, GetVideosOperation ''env-key'' \<lparr>op_name = ''op-0'', op_done = False, op_uri = None\<rparr>,
          Sleep 10000, GetVideosOperation ''env-key'' \<lparr>op_name = ''op-1'', op_done = False, op_uri = None\<rparr>,
          Download ''https://video.example/v1'' [(''x-goog-api-key'', ''env-key'')],
          FetchBlob ''blob:session/1'',
          StorePost \<lparr>body_type = Some ''video'', body_data = Some ''data:video/mp4;base64,VVVV'',
            body_prompt = Some ''a dog'', body_text = None, body_sources = None\<rparr>])"
proof -
  have k: "truthy (env_GEMINI_API_KEY demo_env)" by (simp add: demo_env_def)
  show ?thesis
    by (simp add: handleGenerate_def generate_try_def dispatch_def slow_video_run k video_ready_def idle_def
          materialize_def readAsDataURL_def data_uri_def save_result_def store_post_def
          post_history_def store_up_def ok_def empty_db_def default_prompt_def item_to_result_def)
qed


section \<open>The order of the history\<close>

lemma row_to_result_row_of [simp]: "row_to_result (row_of i b t) = entry_of i b"
  by (simp add: row_to_result_def row_of_def entry_of_def)

lemma after_save_created:
  assumes "complete_body b" and "net_up se" and "db_up se"
  shows "after_save se b (s, db)
         = (s\<lparr>results := entry_of (Suc (seq db)) b # results s, prompt := [], recordedAudio := None\<rparr>,
            db\<lparr>rows := rows db @ [row_of (Suc (seq db)) b (now se)], seq := Suc (seq db)\<rparr>)"
  using assms
  by (simp add: after_save_def save_result_def store_post_def post_history_def complete_body_def
        ok_def Let_def item_to_result_def entry_of_def row_of_def)

lemma strictly_later_listing_unique:
  assumes inc: "sorted_wrt (\<lambda>a b. row_timestamp a < row_timestamp b) tbl"
      and adm: "orders_by_timestamp_desc tbl out"
  shows "out = rev tbl"
proof -
  let ?ts = row_timestamp
  from adm have ms: "mset out = mset tbl"
    and srt: "sorted_wrt (\<lambda>a b. ?ts b \<le> ?ts a) out"
    by (simp_all add: orders_by_timestamp_desc_def)
  from inc have st: "sorted_wrt (<) (map ?ts tbl)" by (simp add: sorted_wrt_map)
  then have d_tbl: "distinct (map ?ts tbl)" and s_tbl: "sorted (map ?ts tbl)"
    by (simp_all add: strict_sorted_iff)
  from ms have mm: "mset (map ?ts out) = mset (map ?ts tbl)" by (metis mset_map)
  with d_tbl have d_out: "distinct (map ?ts (rev out))"
    by (metis distinct_rev mset_eq_imp_distinct_iff rev_map)
  from srt have s_out: "sorted (map ?ts (rev out))"
    by (simp add: sorted_wrt_map sorted_wrt_rev)
  from mm have "set (map ?ts (rev out)) = set (map ?ts tbl)"
    by (metis mset_eq_setD set_rev rev_map)
  with s_out d_out s_tbl d_tbl have eq: "map ?ts (rev out) = map ?ts tbl"
    by (metis sorted_distinct_set_unique)
  from d_tbl have inj: "inj_on ?ts (set tbl)" by (simp add: distinct_map)
  from ms have "set (rev out) = set tbl" by (metis mset_eq_setD set_rev)
  with inj eq have "rev out = tbl"
    by (metis inj_on_map_eq_map sup.idem)
  then show ?thesis by (metis rev_rev_ident)
qed


lemma three_saves:
  assumes A: "complete_body A" and B: "complete_body B" and C: "complete_body C"
      and u1: "net_up e1 \<and> db_up e1" and u2: "net_up e2 \<and> db_up e2" and u3: "net_up e3 \<and> db_up e3"
  shows "after_save e3 C (after_save e2 B (after_save e1 A (s, db)))
         = (s\<lparr>results := entry_of (seq db + 3) C # entry_of (seq db + 2) B
                           # entry_of (seq db + 1) A # results s,
                prompt := [], recordedAudio := None\<rparr>,
            db\<lparr>rows := rows db @ [row_of (seq db + 1) A (now e1), row_of (seq db + 2) B (now e2),
                                   row_of (seq db + 3) C (now e3)],
                seq := seq db + 3\<rparr>)"
  using assms by (simp add: after_save_created numeral_3_eq_3 numeral_2_eq_2)

text \<open>
  Claim C3 as stated fails: three records created within the same second get the same
  timestamp, the query orders by the timestamp alone, and the listing that has the oldest
  record first is one of its answers; the client then shows A, B, C and not C, B, A.
\<close>

theorem same_second_creates_may_list_oldest_first:
  "get_history True
     (snd (after_save (store_up 100) (analysis_body ''C'')
            (after_save (store_up 100) (analysis_body ''B'')
              (after_save (store_up 100) (analysis_body ''A'') (idle, empty_db)))))
     \<lparr>status = 200, body = RowsBody [row_of 1 (analysis_body ''A'') 100,
        row_of 2 (analysis_body ''B'') 100, row_of 3 (analysis_body ''C'') 100]\<rparr>
   \<and> results (fst (fetchHistory
        (Fetched \<lparr>status = 200, body = RowsBody [row_of 1 (analysis_body ''A'') 100,
           row_of 2 (analysis_body ''B'') 100, row_of 3 (analysis_body ''C'') 100]\<rparr>) idle))
      = [entry_of 1 (analysis_body ''A''), entry_of 2 (analysis_body ''B''), entry_of 3 (analysis_body ''C'')]
   \<and> [entry_of 1 (analysis_body ''A''), entry_of 2 (analysis_body ''B''), entry_of 3 (analysis_body ''C'')]
      \<noteq> [entry_of 3 (analysis_body ''C''), entry_of 2 (analysis_body ''B''), entry_of 1 (analysis_body ''A'')]"
proof -
  have a: "complete_body (analysis_body ''A'')" and b: "complete_body (analysis_body ''B'')"
    and c: "complete_body (analysis_body ''C'')"
    by (simp_all add: complete_body_def analysis_body_def)
  have u: "net_up (store_up 100) \<and> db_up (store_up 100)"
    by (simp add: store_up_def)
  note run = three_saves [OF a b c u u u, of idle empty_db]
  show ?thesis
    unfolding run
    by (simp add: get_history_def orders_by_timestamp_desc_def empty_db_def store_up_def
          fetchHistory_def ok_def entry_of_def row_of_def row_to_result_def)
qed

text \<open>
  Claim C3, amended. After A, B and C are created in that order, the list in memory has
  C, B, A at its head, before what it held: each create that the store accepts puts the
  saved entry first. The list of the store is ordered by the timestamp of insertion, a
  whole second, later first: when the three are created on an empty store in three
  seconds that strictly increase, the store lists C, B, A and the list in memory is equal
  to what the store lists.
\<close>

theorem history_is_newest_first:
  assumes A: "complete_body A" and B: "complete_body B" and C: "complete_body C"
      and u1: "net_up e1 \<and> db_up e1" and u2: "net_up e2 \<and> db_up e2" and u3: "net_up e3 \<and> db_up e3"
  shows "results (fst (after_save e3 C (after_save e2 B (after_save e1 A (s, db)))))
           = entry_of (seq db + 3) C # entry_of (seq db + 2) B # entry_of (seq db + 1) A # results s
         \<and> (rows db = [] \<and> results s = [] \<and> now e1 < now e2 \<and> now e2 < now e3
              \<and> get_history True (snd (after_save e3 C (after_save e2 B (after_save e1 A (s, db))))) resp
            \<longrightarrow> rows_of resp = [row_of (seq db + 3) C (now e3), row_of (seq db + 2) B (now e2),
                                row_of (seq db + 1) A (now e1)]
                \<and> results (fst (fetchHistory (Fetched resp)
                      (fst (after_save e3 C (after_save e2 B (after_save e1 A (s, db)))))))
                    = [entry_of (seq db + 3) C, entry_of (seq db + 2) B, entry_of (seq db + 1) A]
                \<and> results (fst (after_save e3 C (after_save e2 B (after_save e1 A (s, db)))))
                    = map row_to_result (rows_of resp))"
proof -
  note run = three_saves [OF A B C u1 u2 u3, of s db]
  have first: "results (fst (after_save e3 C (after_save e2 B (after_save e1 A (s, db)))))
           = entry_of (seq db + 3) C # entry_of (seq db + 2) B # entry_of (seq db + 1) A # results s"
    by (simp add: run)
  have second: "rows_of resp = [row_of (seq db + 3) C (now e3), row_of (seq db + 2) B (now e2),
                                row_of (seq db + 1) A (now e1)]
                \<and> results (fst (fetchHistory (Fetched resp)
                      (fst (after_save e3 C (after_save e2 B (after_save e1 A (s, db)))))))
                    = [entry_of (seq db + 3) C, entry_of (seq db + 2) B, entry_of (seq db + 1) A]
                \<and> results (fst (after_save e3 C (after_save e2 B (after_save e1 A (s, db)))))
                    = map row_to_result (rows_of resp)"
    if h: "rows db = [] \<and> results s = [] \<and> now e1 < now e2 \<and> now e2 < now e3
           \<and> get_history True (snd (after_save e3 C (after_save e2 B (after_save e1 A (s, db))))) resp"
  proof -
    let ?tbl = "[row_of (seq db + 1) A (now e1), row_of (seq db + 2) B (now e2),
                 row_of (seq db + 3) C (now e3)]"
    from h have g: "get_history True (db\<lparr>rows := ?tbl, seq := seq db + 3\<rparr>) resp"
      by (auto simp: run)
    then have adm: "orders_by_timestamp_desc ?tbl (rows_of resp)" and okr: "ok resp"
      and bd: "body resp = RowsBody (rows_of resp)"
      by (auto simp: get_history_def rows_of_def ok_def split: json_body.splits)
    from h have inc: "sorted_wrt (\<lambda>a b. row_timestamp a < row_timestamp b) ?tbl"
      by (simp add: row_of_def)
    from strictly_later_listing_unique [OF inc adm]
    have l: "rows_of resp = [row_of (seq db + 3) C (now e3), row_of (seq db + 2) B (now e2),
                             row_of (seq db + 1) A (now e1)]"
      by simp
    from okr bd have "results (fst (fetchHistory (Fetched resp) s')) = map row_to_result (rows_of resp)"
      for s'
      by (simp add: fetchHistory_def)
    with l h first show ?thesis by simp
  qed
  from first second show ?thesis by blast
qed

theorem history_is_newest_first_witness:
  "results (fst (after_save (store_up 30) (analysis_body ''C'')
            (after_save (store_up 20) (analysis_body ''B'')
              (after_save (store_up 10) (analysis_body ''A'') (idle, empty_db)))))
     = [entry_of 3 (analysis_body ''C''), entry_of 2 (analysis_body ''B''), entry_of 1 (analysis_body ''A'')]
   \<and> results (fst (fetchHistory
        (Fetched \<lparr>status = 200, body = RowsBody [row_of 3 (analysis_body ''C'') 30,
           row_of 2 (analysis_body ''B'') 20, row_of 1 (analysis_body ''A'') 10]\<rparr>)
        (fst (after_save (store_up 30) (analysis_body ''C'')
            (after_save (store_up 20) (analysis_body ''B'')
              (after_save (store_up 10) (analysis_body ''A'') (idle, empty_db)))))))
     = [entry_of 3 (analysis_body ''C''), entry_of 2 (analysis_body ''B''), entry_of 1 (analysis_body ''A'')]"
proof -
  have a: "complete_body (analysis_body ''A'')" and b: "complete_body (analysis_body ''B'')"
    and c: "complete_body (analysis_body ''C'')"
    by (simp_all add: complete_body_def analysis_body_def)
  have u: "net_up (store_up 10) \<and> db_up (store_up 10)"
    "net_up (store_up 20) \<and> db_up (store_up 20)" "net_up (store_up 30) \<and> db_up (store_up 30)"
    by (simp_all add: store_up_def)
  note run = three_saves [OF a b c u, of idle empty_db]
  have g: "get_history True
     (snd (after_save (store_up 30) (analysis_body ''C'')
            (after_save (store_up 20) (analysis_body ''B'')
              (after_save (store_up 10) (analysis_body ''A'') (idle, empty_db)))))
     \<lparr>status = 200, body = RowsBody [row_of 3 (analysis_body ''C'') 30,
        row_of 2 (analysis_body ''B'') 20, row_of 1 (analysis_body ''A'') 10]\<rparr>"
    unfolding run
    by (simp add: get_history_def orders_by_timestamp_desc_def empty_db_def store_up_def
          row_of_def)
  from g history_is_newest_first [OF a b c u, of idle empty_db
          "\<lparr>status = 200, body = RowsBody [row_of 3 (analysis_body ''C'') 30,
        row_of 2 (analysis_body ''B'') 20, row_of 1 (analysis_body ''A'') 10]\<rparr>"]
  show ?thesis
    by (simp add: idle_def empty_db_def store_up_def numeral_2_eq_2 numeral_3_eq_3)
qed

end
